theory Spec2Isabelle
  imports Main "HOL-Library.Word"
begin

unbundle bit_operations_syntax

section \<open>Relations API of Relations.cpp: data model\<close>

text \<open>
  The file under verification holds read-only queries over game entities. A non-null
  pointer to an entity is modelled by the record of the entity it points to; the null
  pointer, which \<^verbatim>\<open>MANGOS_ASSERT\<close> turns into an abort, is excluded by the type. A nullable
  pointer (the result of a lookup) is an \<open>option\<close>. Every object carries a unique object
  guid, so identity of pointers (\<^verbatim>\<open>this == unit\<close>) is identity of object guids.
\<close>

type_synonym ObjectGuid = nat

text \<open>
  Modelled from the spec: the enumeration ReputationRank is declared outside Relations.cpp.
  It is a small totally ordered enumeration ascending from most hostile to most friendly,
  with \<^verbatim>\<open>REP_HATED\<close> as the lowest value of the declaration; the numeric value of a rank is
  its position, which the cast \<^verbatim>\<open>ReputationRank(int32(reaction) + 1)\<close> relies on.
\<close>

datatype ReputationRank =
    REP_HATED | REP_HOSTILE | REP_UNFRIENDLY | REP_NEUTRAL
  | REP_FRIENDLY | REP_HONORED | REP_REVERED | REP_EXALTED

fun rankValue :: "ReputationRank \<Rightarrow> int" where
  "rankValue REP_HATED = 0"
| "rankValue REP_HOSTILE = 1"
| "rankValue REP_UNFRIENDLY = 2"
| "rankValue REP_NEUTRAL = 3"
| "rankValue REP_FRIENDLY = 4"
| "rankValue REP_HONORED = 5"
| "rankValue REP_REVERED = 6"
| "rankValue REP_EXALTED = 7"

text \<open>The cast of an integer to the enumeration; integers that name no rank do not occur
  in the file (the only cast is guarded), they are sent to the lowest rank here.\<close>

definition ReputationRank_of_int :: "int \<Rightarrow> ReputationRank" where
  "ReputationRank_of_int i =
     (if i = 1 then REP_HOSTILE else if i = 2 then REP_UNFRIENDLY
      else if i = 3 then REP_NEUTRAL else if i = 4 then REP_FRIENDLY
      else if i = 5 then REP_HONORED else if i = 6 then REP_REVERED
      else if i = 7 then REP_EXALTED else REP_HATED)"

instantiation ReputationRank :: linorder
begin

definition less_eq_ReputationRank :: "ReputationRank \<Rightarrow> ReputationRank \<Rightarrow> bool" where
  "less_eq_ReputationRank r s \<longleftrightarrow> rankValue r \<le> rankValue s"

definition less_ReputationRank :: "ReputationRank \<Rightarrow> ReputationRank \<Rightarrow> bool" where
  "less_ReputationRank r s \<longleftrightarrow> rankValue r < rankValue s"

instance
proof
  fix x y z :: ReputationRank
  show "(x < y) = (x \<le> y \<and> \<not> y \<le> x)"
    by (auto simp: less_eq_ReputationRank_def less_ReputationRank_def)
  show "x \<le> x"
    by (simp add: less_eq_ReputationRank_def)
  show "x \<le> y \<Longrightarrow> y \<le> z \<Longrightarrow> x \<le> z"
    by (simp add: less_eq_ReputationRank_def)
  show "x \<le> y \<Longrightarrow> y \<le> x \<Longrightarrow> x = y"
    by (cases x; cases y; simp add: less_eq_ReputationRank_def)
  show "x \<le> y \<or> y \<le> x"
    by (auto simp: less_eq_ReputationRank_def)
qed

end

text \<open>The spec's "most-friendly rank": the greatest element of the ordering.\<close>

definition mostFriendlyRank :: ReputationRank where
  "mostFriendlyRank = REP_EXALTED"

subsection \<open>Faction data\<close>

text \<open>
  Modelled from the spec: FactionTemplateEntry and FactionEntry are declared outside
  Relations.cpp. A template has a faction id, three group bitmasks, two fixed-size arrays
  of explicit enemy and friend faction ids (0 marks an unused slot) and the predicate
  \<^verbatim>\<open>IsContestedGuardFaction()\<close>; a faction entry has an id and \<^verbatim>\<open>HasReputation()\<close>.
\<close>

record FactionTemplateEntry =
  faction :: nat
  factionGroupMask :: "32 word"
  friendGroupMask :: "32 word"
  enemyGroupMask :: "32 word"
  enemyFaction :: "nat list"
  friendFaction :: "nat list"
  IsContestedGuardFaction :: bool

record FactionEntry =
  factionID :: nat
  HasReputation :: bool

text \<open>\<^verbatim>\<open>arr[0]\<close> of a fixed-size array (the arrays of the declaration are never empty).\<close>

definition slot0 :: "nat list \<Rightarrow> nat" where
  "slot0 arr = (case arr of [] \<Rightarrow> 0 | i # _ \<Rightarrow> i)"

text \<open>The loop \<^verbatim>\<open>for (unsigned int i : arr) if (i == f) return ...;\<close>: whether it returns.\<close>

fun loopFinds :: "nat list \<Rightarrow> nat \<Rightarrow> bool" where
  "loopFinds [] f = False"
| "loopFinds (i # rest) f = (if i = f then True else loopFinds rest f)"

text \<open>Faction template to faction template reaction (static, lines 100-143).\<close>

definition GetFactionReaction :: "FactionTemplateEntry \<Rightarrow> FactionTemplateEntry \<Rightarrow> ReputationRank" where
  "GetFactionReaction thisTemplate otherTemplate =
     (if factionGroupMask otherTemplate AND enemyGroupMask thisTemplate \<noteq> 0 then REP_HOSTILE
      else if slot0 (enemyFaction thisTemplate) \<noteq> 0 \<and> faction otherTemplate \<noteq> 0
              \<and> loopFinds (enemyFaction thisTemplate) (faction otherTemplate) then REP_HOSTILE
      else if factionGroupMask otherTemplate AND friendGroupMask thisTemplate \<noteq> 0 then REP_FRIENDLY
      else if slot0 (friendFaction thisTemplate) \<noteq> 0 \<and> faction otherTemplate \<noteq> 0
              \<and> loopFinds (friendFaction thisTemplate) (faction otherTemplate) then REP_FRIENDLY
      else if factionGroupMask thisTemplate AND friendGroupMask otherTemplate \<noteq> 0 then REP_FRIENDLY
      else if slot0 (friendFaction otherTemplate) \<noteq> 0 \<and> faction thisTemplate \<noteq> 0
              \<and> loopFinds (friendFaction otherTemplate) (faction thisTemplate) then REP_FRIENDLY
      else REP_NEUTRAL)"

subsection \<open>Units, players and creatures\<close>

text \<open>
  Modelled from the spec: the classes Unit, Player and Creature, their update fields and
  their getters are declared outside Relations.cpp. A unit is read through the getters the
  file calls; each getter is a field of the record, named as in the file. Flag words are
  sets of named flags: \<^verbatim>\<open>HasFlag(field, mask)\<close> holds when the field has a flag of the mask.
\<close>

datatype TypeID = TYPEID_UNIT | TYPEID_PLAYER

datatype UnitFlag =
    UNIT_FLAG_SPAWNING | UNIT_FLAG_PLAYER_CONTROLLED | UNIT_FLAG_NOT_ATTACKABLE_1
  | UNIT_FLAG_IMMUNE_TO_PLAYER | UNIT_FLAG_IMMUNE_TO_NPC | UNIT_FLAG_PET_IN_COMBAT
  | UNIT_FLAG_PERSUADED | UNIT_FLAG_UNTARGETABLE | UNIT_FLAG_TAXI_FLIGHT
  | UNIT_FLAG_UNINTERACTIBLE

datatype PlayerFlag = PLAYER_FLAGS_GHOST | PLAYER_FLAGS_CONTESTED_PVP

datatype CreatureTypeFlag = VISIBLE_TO_GHOSTS | INTERACT_WHILE_DEAD

datatype SpellAttribute =
    SPELL_ATTR_EX2_ALLOW_DEAD_TARGET
  | SPELL_ATTR_EX3_IGNORE_CASTER_AND_TARGET_RESTRICTIONS

record SpellEntry =
  spellAttributes :: "SpellAttribute set"

text \<open>Modelled from the spec: \<^verbatim>\<open>SpellEntry::HasAttribute\<close> and \<^verbatim>\<open>Object::HasFlag\<close>, the
  two bit tests the file calls. \<^verbatim>\<open>HasFlag\<close> with a mask of several flags holds when at
  least one of them is set, as the comment of line 364 says.\<close>

definition HasAttribute :: "SpellEntry \<Rightarrow> SpellAttribute \<Rightarrow> bool" where
  "HasAttribute spellInfo attr = (attr \<in> spellAttributes spellInfo)"

definition HasFlag :: "'a set \<Rightarrow> 'a set \<Rightarrow> bool" where
  "HasFlag fld flags = (fld \<inter> flags \<noteq> {})"

text \<open>Modelled from the spec: the reputation manager of a player, read through the three
  queries the file makes (forced rank for a template, rank and at-war state for a faction
  entry).\<close>

record ReputationMgr =
  GetForcedRankIfAny :: "FactionTemplateEntry \<Rightarrow> ReputationRank option"
  GetRank :: "FactionEntry \<Rightarrow> ReputationRank"
  IsAtWar :: "FactionEntry \<Rightarrow> bool"

record Unit =
  GetObjectGuid :: ObjectGuid
  GetTypeId :: TypeID
  UNIT_FIELD_FLAGS :: "UnitFlag set"
  PLAYER_FLAGS :: "PlayerFlag set"
  GetFaction :: nat
  GetOwnerGuid :: ObjectGuid
  GetMasterGuid :: ObjectGuid
  GetCharmerGuid :: ObjectGuid
  GetSummonerGuid :: ObjectGuid
  GetPersuadedGuid :: ObjectGuid
  PLAYER_DUEL_TEAM :: "32 word"
  PLAYER_DUEL_ARBITER :: ObjectGuid
  GetGroup :: "nat option"
  GetSubGroup :: nat
  GetTeam :: nat
  IsPvP :: bool
  IsPvPFreeForAll :: bool
  IsAlive :: bool
  IsGameMaster :: bool
  IsInDuelWith :: "ObjectGuid \<Rightarrow> bool"
  GetReputationMgr :: ReputationMgr
  CreatureTypeFlags :: "CreatureTypeFlag set"

text \<open>
  The world the queries read, taken as parameters: the object accessor
  (\<^verbatim>\<open>ObjectAccessor::GetUnit\<close>, by guid), the two faction stores (\<^verbatim>\<open>LookupEntry\<close>, by id), the
  three fog-of-war switches of the configuration (unsigned 32-bit values) and the default
  value that the declaration of \<^verbatim>\<open>Unit::IsInTeam\<close> gives to \<open>ignoreCharms\<close>.
\<close>

record World =
  GetUnit :: "ObjectGuid \<Rightarrow> Unit option"
  sFactionTemplateStore :: "nat \<Rightarrow> FactionTemplateEntry option"
  sFactionStore :: "nat \<Rightarrow> FactionEntry option"
  CONFIG_UINT32_FOGOFWAR_STEALTH :: "32 word"
  CONFIG_UINT32_FOGOFWAR_HEALTH :: "32 word"
  CONFIG_UINT32_FOGOFWAR_STATS :: "32 word"
  IsInTeam_default_ignoreCharms :: bool

text \<open>Pointer identity of two units (\<^verbatim>\<open>this == unit\<close>, \<^verbatim>\<open>thisPlayer == unitPlayer\<close>): the two
  pointers reach the same object, that is, the same object guid.\<close>

definition samePtr :: "Unit \<Rightarrow> Unit \<Rightarrow> bool" where
  "samePtr a b = (GetObjectGuid a = GetObjectGuid b)"

text \<open>Modelled from the spec: \<^verbatim>\<open>Unit::GetFactionTemplateEntry()\<close>, a lookup of the unit's
  faction template id in the read-only table; absence is a valid outcome.\<close>

definition GetFactionTemplateEntry :: "World \<Rightarrow> Unit \<Rightarrow> FactionTemplateEntry option" where
  "GetFactionTemplateEntry w u = sFactionTemplateStore w (GetFaction u)"

text \<open>Modelled from the spec: \<^verbatim>\<open>Unit::IsPlayerControlled()\<close>, the player-controlled flag.\<close>

definition IsPlayerControlled :: "Unit \<Rightarrow> bool" where
  "IsPlayerControlled u = HasFlag (UNIT_FIELD_FLAGS u) {UNIT_FLAG_PLAYER_CONTROLLED}"

text \<open>Modelled from the spec: \<^verbatim>\<open>Group::SameSubGroup\<close>, the sub-group equality test.\<close>

definition SameSubGroup :: "Unit \<Rightarrow> Unit \<Rightarrow> bool" where
  "SameSubGroup p1 p2 = (GetSubGroup p1 = GetSubGroup p2)"

section \<open>Tier 1\<close>

text \<open>Controlling player (lines 72-91).\<close>

definition GetControllingPlayer :: "World \<Rightarrow> Unit \<Rightarrow> bool \<Rightarrow> Unit option" where
  "GetControllingPlayer w this ignoreCharms =
     (let masterGuid = (if ignoreCharms then GetOwnerGuid this else GetMasterGuid this) in
      if masterGuid \<noteq> 0 then
        (case GetUnit w masterGuid of
           Some master \<Rightarrow> if GetTypeId master = TYPEID_PLAYER then Some master else None
         | None \<Rightarrow> None)
      else if GetTypeId this = TYPEID_PLAYER then Some this
      else None)"

text \<open>Group membership of units (lines 714-739) and its extension for players
  (lines 926-938).\<close>

definition Unit_IsInGroup :: "World \<Rightarrow> Unit \<Rightarrow> Unit \<Rightarrow> bool \<Rightarrow> bool \<Rightarrow> bool" where
  "Unit_IsInGroup w this other party ignoreCharms =
     (if samePtr this other then True
      else if HasFlag (UNIT_FIELD_FLAGS this) {UNIT_FLAG_PLAYER_CONTROLLED}
              \<and> HasFlag (UNIT_FIELD_FLAGS other) {UNIT_FLAG_PLAYER_CONTROLLED} then
        (case GetControllingPlayer w this ignoreCharms of
           None \<Rightarrow> False
         | Some thisPlayer \<Rightarrow>
             (case GetControllingPlayer w other ignoreCharms of
                None \<Rightarrow> False
              | Some otherPlayer \<Rightarrow>
                  samePtr thisPlayer otherPlayer
                  \<or> (GetGroup thisPlayer \<noteq> None
                     \<and> GetGroup thisPlayer = GetGroup otherPlayer
                     \<and> (\<not> party \<or> SameSubGroup thisPlayer otherPlayer))))
      else False)"

definition Player_IsInGroup :: "World \<Rightarrow> Unit \<Rightarrow> Unit \<Rightarrow> bool \<Rightarrow> bool \<Rightarrow> bool" where
  "Player_IsInGroup w this other party ignoreCharms =
     (if \<not> samePtr this other \<and> ignoreCharms \<and> GetTypeId other = TYPEID_PLAYER then
        GetGroup this \<noteq> None \<and> GetGroup this = GetGroup other
        \<and> (\<not> party \<or> SameSubGroup this other)
      else Unit_IsInGroup w this other party ignoreCharms)"

text \<open>Faction template to unit reaction (static, lines 154-188). The player-specific
  checks come first: \<open>Some r\<close> when they return \<open>r\<close>, \<open>None\<close> when control reaches the
  default fallback.\<close>

definition GetFactionReaction_PlayerChecks ::
  "World \<Rightarrow> FactionTemplateEntry \<Rightarrow> Unit \<Rightarrow> ReputationRank option" where
  "GetFactionReaction_PlayerChecks w thisTemplate u =
     (if HasFlag (UNIT_FIELD_FLAGS u) {UNIT_FLAG_PLAYER_CONTROLLED} then
        (case GetControllingPlayer w u False of
           None \<Rightarrow> None
         | Some unitPlayer \<Rightarrow>
             if HasFlag (PLAYER_FLAGS unitPlayer) {PLAYER_FLAGS_CONTESTED_PVP}
                \<and> IsContestedGuardFaction thisTemplate then Some REP_HOSTILE
             else
               (case GetForcedRankIfAny (GetReputationMgr unitPlayer) thisTemplate of
                  Some rank \<Rightarrow> Some rank
                | None \<Rightarrow>
                    (case sFactionStore w (faction thisTemplate) of
                       None \<Rightarrow> None
                     | Some thisFactionEntry \<Rightarrow>
                         if HasReputation thisFactionEntry
                         then Some (GetRank (GetReputationMgr unitPlayer) thisFactionEntry)
                         else None)))
      else None)"

definition GetFactionReaction_Unit ::
  "World \<Rightarrow> FactionTemplateEntry option \<Rightarrow> Unit \<Rightarrow> ReputationRank" where
  "GetFactionReaction_Unit w thisTemplate u =
     (case thisTemplate of
        None \<Rightarrow> REP_NEUTRAL
      | Some thisT \<Rightarrow>
          (case GetFactionTemplateEntry w u of
             None \<Rightarrow> REP_NEUTRAL
           | Some unitFactionTemplate \<Rightarrow>
               (case GetFactionReaction_PlayerChecks w thisT u of
                  Some r \<Rightarrow> r
                | None \<Rightarrow> GetFactionReaction thisT unitFactionTemplate)))"

text \<open>
  Unit to unit reaction (lines 197-268). The function returns early from three places
  inside the block guarded by the caller's player-controlled flag; each part of the block
  yields \<open>Some r\<close> when it returns \<open>r\<close> and \<open>None\<close> when control goes on.
\<close>

text \<open>Lines 214-230: both sides are player controlled.\<close>

definition GetReactionTo_BothControlled ::
  "World \<Rightarrow> Unit option \<Rightarrow> Unit option \<Rightarrow> ReputationRank option" where
  "GetReactionTo_BothControlled w thisPlayerPtr unitPlayerPtr =
     (case thisPlayerPtr of
        None \<Rightarrow> Some REP_NEUTRAL
      | Some thisPlayer \<Rightarrow>
          (case unitPlayerPtr of
             None \<Rightarrow> Some REP_NEUTRAL
           | Some unitPlayer \<Rightarrow>
               if samePtr thisPlayer unitPlayer then Some REP_FRIENDLY
               else if PLAYER_DUEL_TEAM thisPlayer \<noteq> 0 \<and> PLAYER_DUEL_TEAM unitPlayer \<noteq> 0
                       \<and> PLAYER_DUEL_ARBITER thisPlayer = PLAYER_DUEL_ARBITER unitPlayer then
                 Some (if PLAYER_DUEL_TEAM thisPlayer \<noteq> PLAYER_DUEL_TEAM unitPlayer
                       then REP_HOSTILE else REP_FRIENDLY)
               else if Player_IsInGroup w thisPlayer unitPlayer False False then Some REP_FRIENDLY
               else if IsPvPFreeForAll thisPlayer \<and> IsPvPFreeForAll unitPlayer then Some REP_HOSTILE
               else None))"

text \<open>Lines 233-252: the caller has a controlling player.\<close>

definition GetReactionTo_Reputation ::
  "World \<Rightarrow> Unit \<Rightarrow> Unit \<Rightarrow> ReputationRank option" where
  "GetReactionTo_Reputation w thisPlayer u =
     (case GetFactionTemplateEntry w u of
        None \<Rightarrow> None
      | Some unitFactionTemplate \<Rightarrow>
          (case GetForcedRankIfAny (GetReputationMgr thisPlayer) unitFactionTemplate of
             Some rank \<Rightarrow> Some rank
           | None \<Rightarrow>
               (case sFactionStore w (faction unitFactionTemplate) of
                  None \<Rightarrow> None
                | Some unitFactionEntry \<Rightarrow>
                    if HasReputation unitFactionEntry then
                      (if HasFlag (PLAYER_FLAGS thisPlayer) {PLAYER_FLAGS_CONTESTED_PVP}
                          \<and> IsContestedGuardFaction unitFactionTemplate then Some REP_HOSTILE
                       else Some (if IsAtWar (GetReputationMgr thisPlayer) unitFactionEntry
                                  then REP_HOSTILE else REP_FRIENDLY))
                    else None)))"

text \<open>Lines 206-253: the whole block.\<close>

definition GetReactionTo_PlayerControlled ::
  "World \<Rightarrow> Unit \<Rightarrow> Unit \<Rightarrow> ReputationRank option" where
  "GetReactionTo_PlayerControlled w this u =
     (if HasFlag (UNIT_FIELD_FLAGS this) {UNIT_FLAG_PLAYER_CONTROLLED} then
        (let thisPlayer = GetControllingPlayer w this False in
         case (if HasFlag (UNIT_FIELD_FLAGS u) {UNIT_FLAG_PLAYER_CONTROLLED}
               then GetReactionTo_BothControlled w thisPlayer (GetControllingPlayer w u False)
               else None) of
           Some r \<Rightarrow> Some r
         | None \<Rightarrow>
             (case thisPlayer of
                None \<Rightarrow> None
              | Some p \<Rightarrow> GetReactionTo_Reputation w p u))
      else None)"

text \<open>Lines 257-267: persuasion support, applied to the reaction of the default fallback.\<close>

definition GetReactionTo_Persuasion ::
  "World \<Rightarrow> Unit \<Rightarrow> Unit \<Rightarrow> ReputationRank \<Rightarrow> ReputationRank" where
  "GetReactionTo_Persuasion w this u reaction =
     (if reaction > REP_HOSTILE \<and> reaction < REP_HONORED
         \<and> (HasFlag (UNIT_FIELD_FLAGS u) {UNIT_FLAG_PERSUADED}
            \<or> GetPersuadedGuid this = GetObjectGuid u) then
        (case GetFactionTemplateEntry w u of
           None \<Rightarrow> reaction
         | Some unitFactionTemplate \<Rightarrow>
             (case sFactionStore w (faction unitFactionTemplate) of
                None \<Rightarrow> reaction
              | Some unitFactionEntry \<Rightarrow>
                  if HasReputation unitFactionEntry
                  then ReputationRank_of_int (rankValue reaction + 1)
                  else reaction))
      else reaction)"

definition Unit_GetReactionTo :: "World \<Rightarrow> Unit \<Rightarrow> Unit \<Rightarrow> ReputationRank" where
  "Unit_GetReactionTo w this u =
     (if samePtr this u then REP_FRIENDLY
      else
        (case GetReactionTo_PlayerControlled w this u of
           Some r \<Rightarrow> r
         | None \<Rightarrow>
             GetReactionTo_Persuasion w this u
               (GetFactionReaction_Unit w (GetFactionTemplateEntry w this) u)))"

text \<open>Reaction presets (lines 326-341).\<close>

definition Unit_IsEnemy :: "World \<Rightarrow> Unit \<Rightarrow> Unit \<Rightarrow> bool" where
  "Unit_IsEnemy w this u = (Unit_GetReactionTo w this u < REP_UNFRIENDLY)"

definition Unit_IsFriend :: "World \<Rightarrow> Unit \<Rightarrow> Unit \<Rightarrow> bool" where
  "Unit_IsFriend w this u = (Unit_GetReactionTo w this u > REP_NEUTRAL)"

text \<open>The duel test shared by \<^verbatim>\<open>CanAttack\<close> and \<^verbatim>\<open>CanAttackServerside\<close> (lines 403, 1265).\<close>

definition duelMatch :: "Unit \<Rightarrow> Unit \<Rightarrow> bool" where
  "duelMatch thisPlayer unitPlayer =
     (PLAYER_DUEL_TEAM thisPlayer \<noteq> 0 \<and> PLAYER_DUEL_TEAM unitPlayer \<noteq> 0
      \<and> PLAYER_DUEL_ARBITER thisPlayer = PLAYER_DUEL_ARBITER unitPlayer)"

text \<open>The flags of line 365.\<close>

definition notAttackableMask :: "UnitFlag set" where
  "notAttackableMask =
     {UNIT_FLAG_SPAWNING, UNIT_FLAG_NOT_ATTACKABLE_1, UNIT_FLAG_UNTARGETABLE,
      UNIT_FLAG_TAXI_FLIGHT, UNIT_FLAG_UNINTERACTIBLE}"

text \<open>Lines 390-414: the decision once a side is player controlled.\<close>

definition CanAttack_Controlled :: "World \<Rightarrow> Unit \<Rightarrow> Unit \<Rightarrow> bool \<Rightarrow> bool \<Rightarrow> bool" where
  "CanAttack_Controlled w this u thisPlayerControlled unitPlayerControlled =
     (if thisPlayerControlled \<and> unitPlayerControlled then
        (if Unit_IsFriend w this u then False
         else
           (case GetControllingPlayer w this False of
              None \<Rightarrow> True
            | Some thisPlayer \<Rightarrow>
                (case GetControllingPlayer w u False of
                   None \<Rightarrow> True
                 | Some unitPlayer \<Rightarrow>
                     if duelMatch thisPlayer unitPlayer then True
                     else if IsPvP unitPlayer then True
                     else if IsPvPFreeForAll thisPlayer \<and> IsPvPFreeForAll unitPlayer then True
                     else False)))
      else \<not> Unit_IsFriend w this u)"

text \<open>Opposition, generic (lines 351-417).\<close>

definition Unit_CanAttack :: "World \<Rightarrow> Unit \<Rightarrow> Unit \<Rightarrow> bool" where
  "Unit_CanAttack w this u =
     (if GetTypeId this = TYPEID_UNIT \<and> GetTypeId u = TYPEID_PLAYER
         \<and> HasFlag (PLAYER_FLAGS u) {PLAYER_FLAGS_GHOST}
         \<and> \<not> HasFlag (CreatureTypeFlags this) {VISIBLE_TO_GHOSTS} then False
      else if HasFlag (UNIT_FIELD_FLAGS u) notAttackableMask then False
      else
        (let thisPlayerControlled = HasFlag (UNIT_FIELD_FLAGS this) {UNIT_FLAG_PLAYER_CONTROLLED};
             unitPlayerControlled = HasFlag (UNIT_FIELD_FLAGS u) {UNIT_FLAG_PLAYER_CONTROLLED}
         in
           if thisPlayerControlled \<and> HasFlag (UNIT_FIELD_FLAGS u) {UNIT_FLAG_IMMUNE_TO_PLAYER} then False
           else if \<not> thisPlayerControlled \<and> HasFlag (UNIT_FIELD_FLAGS u) {UNIT_FLAG_IMMUNE_TO_NPC} then False
           else if unitPlayerControlled \<and> HasFlag (UNIT_FIELD_FLAGS this) {UNIT_FLAG_IMMUNE_TO_PLAYER} then False
           else if \<not> unitPlayerControlled \<and> HasFlag (UNIT_FIELD_FLAGS this) {UNIT_FLAG_IMMUNE_TO_NPC} then False
           else if thisPlayerControlled \<or> unitPlayerControlled then
             CanAttack_Controlled w this u thisPlayerControlled unitPlayerControlled
           else Unit_IsEnemy w this u \<or> Unit_IsEnemy w u this))"

text \<open>Modelled from the spec: \<^verbatim>\<open>Unit::GetMaster()\<close>, the unit behind the master guid.\<close>

definition GetMaster :: "World \<Rightarrow> Unit \<Rightarrow> Unit option" where
  "GetMaster w u = (if GetMasterGuid u \<noteq> 0 then GetUnit w (GetMasterGuid u) else None)"

text \<open>The lambda \<^verbatim>\<open>isPvPUI\<close> of lines 473-482.\<close>

definition isPvPUI :: "World \<Rightarrow> Unit \<Rightarrow> bool" where
  "isPvPUI w self =
     (case GetMaster w self of
        Some master \<Rightarrow>
          if HasFlag (UNIT_FIELD_FLAGS self) {UNIT_FLAG_IMMUNE_TO_PLAYER} then False
          else IsPvP master
      | None \<Rightarrow> IsPvP self)"

text \<open>Assistance (lines 458-511).\<close>

definition Unit_CanAssist :: "World \<Rightarrow> Unit \<Rightarrow> Unit \<Rightarrow> bool" where
  "Unit_CanAssist w this u =
     (if HasFlag (UNIT_FIELD_FLAGS u) {UNIT_FLAG_UNINTERACTIBLE} then False
      else if Unit_GetReactionTo w this u < REP_FRIENDLY then False
      else if HasFlag (UNIT_FIELD_FLAGS u) {UNIT_FLAG_PLAYER_CONTROLLED} then
        (case GetControllingPlayer w this False of
           None \<Rightarrow> True
         | Some thisPlayer \<Rightarrow>
             (case GetControllingPlayer w u False of
                None \<Rightarrow> True
              | Some unitPlayer \<Rightarrow>
                  if PLAYER_DUEL_ARBITER thisPlayer \<noteq> PLAYER_DUEL_ARBITER unitPlayer
                     \<or> PLAYER_DUEL_TEAM thisPlayer \<noteq> PLAYER_DUEL_TEAM unitPlayer then False
                  else if IsPvPFreeForAll unitPlayer \<and> \<not> IsPvPFreeForAll thisPlayer then False
                  else True))
      else if \<not> HasFlag (UNIT_FIELD_FLAGS this) {UNIT_FLAG_PLAYER_CONTROLLED} then True
      else if isPvPUI w u then True
      else False)"

text \<open>Cooperation (lines 533-557).\<close>

definition Unit_CanCooperate :: "World \<Rightarrow> Unit \<Rightarrow> Unit \<Rightarrow> bool" where
  "Unit_CanCooperate w this u =
     (if samePtr this u then False
      else if GetCharmerGuid this \<noteq> 0 \<or> GetCharmerGuid u \<noteq> 0 then False
      else
        (case GetFactionTemplateEntry w this of
           None \<Rightarrow> False
         | Some thisFactionTemplate \<Rightarrow>
             (case GetFactionTemplateEntry w u of
                None \<Rightarrow> False
              | Some unitFactionTemplate \<Rightarrow>
                  if factionGroupMask thisFactionTemplate = factionGroupMask unitFactionTemplate
                  then \<not> Unit_CanAttack w this u
                  else False)))"

section \<open>Tier 2\<close>

text \<open>
  Modelled from the spec: GameObject and DynamicObject are declared outside
  Relations.cpp. A game object is read through \<^verbatim>\<open>GetOwner()\<close> and its faction field, a
  dynamic object through \<^verbatim>\<open>GetCaster()\<close>; both getters yield the owning unit or null.
\<close>

record GameObject =
  GetOwner :: "Unit option"
  GAMEOBJECT_FACTION :: nat

record DynamicObject =
  GetCaster :: "Unit option"

text \<open>Game object to unit reaction (lines 301-317) and presets (lines 807-845).\<close>

definition GameObject_GetReactionTo :: "World \<Rightarrow> GameObject \<Rightarrow> Unit \<Rightarrow> ReputationRank" where
  "GameObject_GetReactionTo w this u =
     (case GetOwner this of
        Some owner \<Rightarrow> Unit_GetReactionTo w owner u
      | None \<Rightarrow>
          if GAMEOBJECT_FACTION this \<noteq> 0 then
            (case sFactionTemplateStore w (GAMEOBJECT_FACTION this) of
               Some factionTemplate \<Rightarrow> GetFactionReaction_Unit w (Some factionTemplate) u
             | None \<Rightarrow> REP_NEUTRAL)
          else REP_NEUTRAL)"

definition GameObject_IsEnemy :: "World \<Rightarrow> GameObject \<Rightarrow> Unit \<Rightarrow> bool" where
  "GameObject_IsEnemy w this u =
     (case GetOwner this of
        Some owner \<Rightarrow> Unit_IsEnemy w owner u
      | None \<Rightarrow>
          if GAMEOBJECT_FACTION this \<noteq> 0 then
            (case sFactionTemplateStore w (GAMEOBJECT_FACTION this) of
               Some factionTemplate \<Rightarrow>
                 GetFactionReaction_Unit w (Some factionTemplate) u < REP_UNFRIENDLY
             | None \<Rightarrow> False)
          else False)"

definition GameObject_IsFriend :: "World \<Rightarrow> GameObject \<Rightarrow> Unit \<Rightarrow> bool" where
  "GameObject_IsFriend w this u =
     (case GetOwner this of
        Some owner \<Rightarrow> Unit_IsFriend w owner u
      | None \<Rightarrow>
          if GAMEOBJECT_FACTION this \<noteq> 0 then
            (case sFactionTemplateStore w (GAMEOBJECT_FACTION this) of
               Some factionTemplate \<Rightarrow>
                 GetFactionReaction_Unit w (Some factionTemplate) u > REP_NEUTRAL
             | None \<Rightarrow> False)
          else False)"

text \<open>Dynamic object to unit reaction and presets (lines 855-899).\<close>

definition DynamicObject_GetReactionTo :: "World \<Rightarrow> DynamicObject \<Rightarrow> Unit \<Rightarrow> ReputationRank" where
  "DynamicObject_GetReactionTo w this u =
     (case GetCaster this of
        Some caster \<Rightarrow> Unit_GetReactionTo w caster u
      | None \<Rightarrow> REP_NEUTRAL)"

definition DynamicObject_IsEnemy :: "World \<Rightarrow> DynamicObject \<Rightarrow> Unit \<Rightarrow> bool" where
  "DynamicObject_IsEnemy w this u =
     (case GetCaster this of
        Some caster \<Rightarrow> Unit_IsEnemy w caster u
      | None \<Rightarrow> False)"

definition DynamicObject_IsFriend :: "World \<Rightarrow> DynamicObject \<Rightarrow> Unit \<Rightarrow> bool" where
  "DynamicObject_IsFriend w this u =
     (case GetCaster this of
        Some caster \<Rightarrow> Unit_IsFriend w caster u
      | None \<Rightarrow> False)"

text \<open>Group membership, extension for creatures (lines 908-917).\<close>

definition Creature_IsInGroup :: "World \<Rightarrow> Unit \<Rightarrow> Unit \<Rightarrow> bool \<Rightarrow> bool \<Rightarrow> bool" where
  "Creature_IsInGroup w this other party ignoreCharms =
     (if HasFlag (UNIT_FIELD_FLAGS this) {UNIT_FLAG_PLAYER_CONTROLLED}
         \<or> HasFlag (UNIT_FIELD_FLAGS other) {UNIT_FLAG_PLAYER_CONTROLLED}
      then Unit_IsInGroup w this other party ignoreCharms
      else Unit_IsFriend w this other)"

text \<open>The call \<^verbatim>\<open>IsInGroup(...)\<close> on a unit, resolved by the class of the object: players
  and creatures each supply the extension above.\<close>

definition IsInGroup :: "World \<Rightarrow> Unit \<Rightarrow> Unit \<Rightarrow> bool \<Rightarrow> bool \<Rightarrow> bool" where
  "IsInGroup w this other party ignoreCharms =
     (case GetTypeId this of
        TYPEID_PLAYER \<Rightarrow> Player_IsInGroup w this other party ignoreCharms
      | TYPEID_UNIT \<Rightarrow> Creature_IsInGroup w this other party ignoreCharms)"

section \<open>Tier 3\<close>

text \<open>Opposition for the spell path (lines 1206-1279).\<close>

definition Unit_CanAttackServerside :: "World \<Rightarrow> Unit \<Rightarrow> Unit \<Rightarrow> bool \<Rightarrow> bool \<Rightarrow> bool" where
  "Unit_CanAttackServerside w this u ignoreFlagsSource ignoreFlagsTarget =
     (if GetTypeId this = TYPEID_UNIT \<and> GetTypeId u = TYPEID_PLAYER
         \<and> HasFlag (PLAYER_FLAGS u) {PLAYER_FLAGS_GHOST}
         \<and> \<not> HasFlag (CreatureTypeFlags this) {VISIBLE_TO_GHOSTS} then False
      else if HasFlag (UNIT_FIELD_FLAGS u) notAttackableMask then False
      else
        (let thisPlayerControlled = HasFlag (UNIT_FIELD_FLAGS this) {UNIT_FLAG_PLAYER_CONTROLLED};
             unitPlayerControlled = HasFlag (UNIT_FIELD_FLAGS u) {UNIT_FLAG_PLAYER_CONTROLLED}
         in
           if \<not> ignoreFlagsTarget \<and> thisPlayerControlled
              \<and> HasFlag (UNIT_FIELD_FLAGS u) {UNIT_FLAG_IMMUNE_TO_PLAYER} then False
           else if \<not> ignoreFlagsTarget \<and> \<not> thisPlayerControlled
              \<and> HasFlag (UNIT_FIELD_FLAGS u) {UNIT_FLAG_IMMUNE_TO_NPC} then False
           else if \<not> ignoreFlagsSource \<and> unitPlayerControlled
              \<and> HasFlag (UNIT_FIELD_FLAGS this) {UNIT_FLAG_IMMUNE_TO_PLAYER} then False
           else if \<not> ignoreFlagsSource \<and> \<not> unitPlayerControlled
              \<and> HasFlag (UNIT_FIELD_FLAGS this) {UNIT_FLAG_IMMUNE_TO_NPC} then False
           else if thisPlayerControlled \<or> unitPlayerControlled then
             CanAttack_Controlled w this u thisPlayerControlled unitPlayerControlled
           else Unit_IsEnemy w this u \<or> Unit_IsEnemy w u this))"

text \<open>The "at war" test of lines 1108-1112 and 1183-1186: the faction entry of the caller's
  template, when it exists and tracks reputation.\<close>

definition reputationFactionOf :: "World \<Rightarrow> Unit \<Rightarrow> FactionEntry option" where
  "reputationFactionOf w this =
     (case GetFactionTemplateEntry w this of
        None \<Rightarrow> None
      | Some thisFactionTemplate \<Rightarrow>
          (case sFactionStore w (faction thisFactionTemplate) of
             None \<Rightarrow> None
           | Some thisFactionEntry \<Rightarrow>
               if HasReputation thisFactionEntry then Some thisFactionEntry else None))"

text \<open>Opposition in combat (lines 1172-1196).\<close>

definition Unit_CanAttackInCombat :: "World \<Rightarrow> Unit \<Rightarrow> Unit \<Rightarrow> bool \<Rightarrow> bool \<Rightarrow> bool" where
  "Unit_CanAttackInCombat w this target ignoreFlagsSource ignoreFlagsTarget =
     (if \<not> Unit_CanAttackServerside w this target ignoreFlagsSource ignoreFlagsTarget then
        (if IsPlayerControlled target \<and> Unit_IsFriend w this target then
           (case GetControllingPlayer w target False of
              None \<Rightarrow> False
            | Some unitPlayer \<Rightarrow>
                (case reputationFactionOf w this of
                   None \<Rightarrow> False
                 | Some thisFactionEntry \<Rightarrow>
                     IsAtWar (GetReputationMgr unitPlayer) thisFactionEntry))
         else False)
      else True)"

text \<open>Harmful spell targeting (lines 1065-1121); \<open>spellInfo\<close> may be null.\<close>

definition Unit_CanAttackSpell ::
  "World \<Rightarrow> Unit \<Rightarrow> Unit \<Rightarrow> SpellEntry option \<Rightarrow> bool \<Rightarrow> bool" where
  "Unit_CanAttackSpell w this target spellInfo isAOE =
     (if (case spellInfo of
            Some spell \<Rightarrow> \<not> IsAlive target \<and> \<not> HasAttribute spell SPELL_ATTR_EX2_ALLOW_DEAD_TARGET
          | None \<Rightarrow> False) then False
      else
        (let ignoreFlagsSource =
               (case spellInfo of
                  Some spell \<Rightarrow> HasAttribute spell SPELL_ATTR_EX3_IGNORE_CASTER_AND_TARGET_RESTRICTIONS
                | None \<Rightarrow> False);
             ignoreFlagsTarget =
               (case spellInfo of
                  Some spell \<Rightarrow> HasAttribute spell SPELL_ATTR_EX3_IGNORE_CASTER_AND_TARGET_RESTRICTIONS
                | None \<Rightarrow> False)
         in
           if Unit_CanAttackInCombat w this target ignoreFlagsSource ignoreFlagsTarget then
             (if HasFlag (UNIT_FIELD_FLAGS target) {UNIT_FLAG_PLAYER_CONTROLLED} then
                (if HasFlag (UNIT_FIELD_FLAGS this) {UNIT_FLAG_PLAYER_CONTROLLED} then
                   (if isAOE then
                      (case GetControllingPlayer w this False of
                         None \<Rightarrow> True
                       | Some thisPlayer \<Rightarrow>
                           (case GetControllingPlayer w target False of
                              None \<Rightarrow> True
                            | Some unitPlayer \<Rightarrow>
                                if \<not> IsInDuelWith thisPlayer (GetObjectGuid unitPlayer)
                                   \<and> IsPvP thisPlayer \<noteq> IsPvP unitPlayer
                                then IsPvPFreeForAll thisPlayer \<and> IsPvPFreeForAll unitPlayer
                                else True))
                    else True)
                 else
                   (if \<not> Unit_IsEnemy w this target then
                      (case GetControllingPlayer w target False of
                         None \<Rightarrow> True
                       | Some unitPlayer \<Rightarrow>
                           (case reputationFactionOf w this of
                              None \<Rightarrow> True
                            | Some thisFactionEntry \<Rightarrow>
                                IsAtWar (GetReputationMgr unitPlayer) thisFactionEntry))
                    else True))
              else True)
           else False))"

text \<open>Helpful spell targeting (lines 1131-1134).\<close>

definition Unit_CanAssistSpell :: "World \<Rightarrow> Unit \<Rightarrow> Unit \<Rightarrow> SpellEntry option \<Rightarrow> bool" where
  "Unit_CanAssistSpell w this target spellInfo = Unit_CanAssist w this target"

text \<open>Spell targeting of dynamic objects (lines 982-1009). The call of line 1006 leaves
  \<open>isAOE\<close> to the default argument of the declaration, \<open>false\<close>.\<close>

definition DynamicObject_CanAttackSpell ::
  "World \<Rightarrow> DynamicObject \<Rightarrow> Unit \<Rightarrow> SpellEntry option \<Rightarrow> bool \<Rightarrow> bool" where
  "DynamicObject_CanAttackSpell w this target spellInfo isAOE =
     (case GetCaster this of
        Some owner \<Rightarrow> Unit_CanAttackSpell w owner target spellInfo isAOE
      | None \<Rightarrow> False)"

definition DynamicObject_CanAssistSpell ::
  "World \<Rightarrow> DynamicObject \<Rightarrow> Unit \<Rightarrow> SpellEntry option \<Rightarrow> bool" where
  "DynamicObject_CanAssistSpell w this target spellInfo =
     (case GetCaster this of
        Some owner \<Rightarrow> Unit_CanAttackSpell w owner target spellInfo False
      | None \<Rightarrow> False)"

text \<open>Spell targeting of game objects (lines 1020-1053).\<close>

definition GameObject_CanAttackSpell ::
  "World \<Rightarrow> GameObject \<Rightarrow> Unit \<Rightarrow> SpellEntry option \<Rightarrow> bool \<Rightarrow> bool" where
  "GameObject_CanAttackSpell w this target spellInfo isAOE =
     (case GetOwner this of
        Some owner \<Rightarrow> Unit_CanAttackSpell w owner target spellInfo isAOE
      | None \<Rightarrow>
          if HasFlag (UNIT_FIELD_FLAGS target) {UNIT_FLAG_PLAYER_CONTROLLED}
          then \<not> GameObject_IsFriend w this target
          else GameObject_IsEnemy w this target)"

definition GameObject_CanAssistSpell ::
  "World \<Rightarrow> GameObject \<Rightarrow> Unit \<Rightarrow> SpellEntry option \<Rightarrow> bool" where
  "GameObject_CanAssistSpell w this target spellInfo =
     (case GetOwner this of
        Some owner \<Rightarrow> Unit_CanAssistSpell w owner target spellInfo
      | None \<Rightarrow>
          if HasFlag (UNIT_FIELD_FLAGS target) {UNIT_FLAG_PLAYER_CONTROLLED}
          then \<not> GameObject_IsEnemy w this target
          else GameObject_IsFriend w this target)"

text \<open>Team membership (lines 1389-1409).\<close>

definition Unit_IsInTeam :: "World \<Rightarrow> Unit \<Rightarrow> Unit \<Rightarrow> bool \<Rightarrow> bool" where
  "Unit_IsInTeam w this other ignoreCharms =
     (if samePtr this other then True
      else if HasFlag (UNIT_FIELD_FLAGS this) {UNIT_FLAG_PLAYER_CONTROLLED}
              \<and> HasFlag (UNIT_FIELD_FLAGS other) {UNIT_FLAG_PLAYER_CONTROLLED} then
        (case GetControllingPlayer w this ignoreCharms of
           None \<Rightarrow> False
         | Some thisPlayer \<Rightarrow>
             (case GetControllingPlayer w other ignoreCharms of
                None \<Rightarrow> False
              | Some otherPlayer \<Rightarrow>
                  samePtr thisPlayer otherPlayer \<or> GetTeam thisPlayer = GetTeam otherPlayer))
      else False)"

text \<open>Fog of war (lines 1289-1350). The calls \<^verbatim>\<open>IsInTeam(other)\<close> leave \<open>ignoreCharms\<close> to the
  default argument of the declaration, a parameter of the world here.\<close>

definition Unit_IsFogOfWarVisibleStealth :: "World \<Rightarrow> Unit \<Rightarrow> Unit \<Rightarrow> bool" where
  "Unit_IsFogOfWarVisibleStealth w this other =
     (if GetTypeId other = TYPEID_PLAYER \<and> IsGameMaster other then True
      else if CONFIG_UINT32_FOGOFWAR_STEALTH w = 1 then Unit_CanCooperate w this other
      else IsInGroup w this other False False)"

definition Unit_IsFogOfWarVisibleHealth :: "World \<Rightarrow> Unit \<Rightarrow> Unit \<Rightarrow> bool" where
  "Unit_IsFogOfWarVisibleHealth w this other =
     (if GetTypeId other = TYPEID_PLAYER \<and> IsGameMaster other then True
      else if CONFIG_UINT32_FOGOFWAR_HEALTH w = 1
        then Unit_IsInTeam w this other (IsInTeam_default_ignoreCharms w)
      else if CONFIG_UINT32_FOGOFWAR_HEALTH w = 2 then True
      else IsInGroup w this other False True)"

definition Unit_IsFogOfWarVisibleStats :: "World \<Rightarrow> Unit \<Rightarrow> Unit \<Rightarrow> bool" where
  "Unit_IsFogOfWarVisibleStats w this other =
     (if GetTypeId other = TYPEID_PLAYER \<and> IsGameMaster other then True
      else if CONFIG_UINT32_FOGOFWAR_STATS w = 1
        then Unit_IsInTeam w this other (IsInTeam_default_ignoreCharms w)
      else if CONFIG_UINT32_FOGOFWAR_STATS w = 2 then True
      else samePtr this other \<or> GetSummonerGuid this = GetObjectGuid other)"

section \<open>Fixtures\<close>

text \<open>
  A small world for concrete evaluations: a guard faction that tracks reputation, a player
  faction that does not, and a faction hostile to the guards; a creature of the guard
  faction and a player who is neutral with everybody and at war with nobody.
\<close>

definition fxGuardTemplate :: FactionTemplateEntry where
  "fxGuardTemplate =
     \<lparr>faction = 100, factionGroupMask = 2, friendGroupMask = 2, enemyGroupMask = 0,
      enemyFaction = [0, 0, 0, 0], friendFaction = [0, 0, 0, 0],
      IsContestedGuardFaction = True\<rparr>"

definition fxPlayerTemplate :: FactionTemplateEntry where
  "fxPlayerTemplate =
     \<lparr>faction = 200, factionGroupMask = 1, friendGroupMask = 1, enemyGroupMask = 0,
      enemyFaction = [0, 0, 0, 0], friendFaction = [0, 0, 0, 0],
      IsContestedGuardFaction = False\<rparr>"

definition fxRaiderTemplate :: FactionTemplateEntry where
  "fxRaiderTemplate =
     \<lparr>faction = 300, factionGroupMask = 4, friendGroupMask = 4, enemyGroupMask = 2,
      enemyFaction = [0, 0, 0, 0], friendFaction = [0, 0, 0, 0],
      IsContestedGuardFaction = False\<rparr>"

definition fxReputation :: ReputationMgr where
  "fxReputation =
     \<lparr>GetForcedRankIfAny = (\<lambda>t. None), GetRank = (\<lambda>e. REP_NEUTRAL), IsAtWar = (\<lambda>e. False)\<rparr>"

definition fxForcedReputation :: ReputationMgr where
  "fxForcedReputation =
     \<lparr>GetForcedRankIfAny = (\<lambda>t. if faction t = 100 then Some REP_HONORED else None),
      GetRank = (\<lambda>e. REP_NEUTRAL), IsAtWar = (\<lambda>e. False)\<rparr>"

definition fxCreature :: Unit where
  "fxCreature =
     \<lparr>GetObjectGuid = 1, GetTypeId = TYPEID_UNIT, UNIT_FIELD_FLAGS = {}, PLAYER_FLAGS = {},
      GetFaction = 10, GetOwnerGuid = 0, GetMasterGuid = 0, GetCharmerGuid = 0,
      GetSummonerGuid = 0, GetPersuadedGuid = 0, PLAYER_DUEL_TEAM = 0,
      PLAYER_DUEL_ARBITER = 0, GetGroup = None, GetSubGroup = 0, GetTeam = 0,
      IsPvP = False, IsPvPFreeForAll = False, IsAlive = True, IsGameMaster = False,
      IsInDuelWith = (\<lambda>g. False), GetReputationMgr = fxReputation,
      CreatureTypeFlags = {}\<rparr>"

definition fxPlayer :: Unit where
  "fxPlayer =
     \<lparr>GetObjectGuid = 2, GetTypeId = TYPEID_PLAYER,
      UNIT_FIELD_FLAGS = {UNIT_FLAG_PLAYER_CONTROLLED}, PLAYER_FLAGS = {},
      GetFaction = 20, GetOwnerGuid = 0, GetMasterGuid = 0, GetCharmerGuid = 0,
      GetSummonerGuid = 0, GetPersuadedGuid = 0, PLAYER_DUEL_TEAM = 0,
      PLAYER_DUEL_ARBITER = 0, GetGroup = None, GetSubGroup = 0, GetTeam = 469,
      IsPvP = False, IsPvPFreeForAll = False, IsAlive = True, IsGameMaster = False,
      IsInDuelWith = (\<lambda>g. False), GetReputationMgr = fxReputation,
      CreatureTypeFlags = {}\<rparr>"

definition fxWorld :: World where
  "fxWorld =
     \<lparr>GetUnit = (\<lambda>g. if g = 1 then Some fxCreature else if g = 2 then Some fxPlayer else None),
      sFactionTemplateStore =
        (\<lambda>i. if i = 10 then Some fxGuardTemplate else if i = 20 then Some fxPlayerTemplate
             else if i = 30 then Some fxRaiderTemplate else None),
      sFactionStore =
        (\<lambda>i. if i = 100 then Some \<lparr>factionID = 100, HasReputation = True\<rparr> else None),
      CONFIG_UINT32_FOGOFWAR_STEALTH = 0, CONFIG_UINT32_FOGOFWAR_HEALTH = 0,
      CONFIG_UINT32_FOGOFWAR_STATS = 0, IsInTeam_default_ignoreCharms = True\<rparr>"

definition fxSparseEnemies :: FactionTemplateEntry where
  "fxSparseEnemies = fxGuardTemplate\<lparr>enemyFaction := [0, 200, 0, 0]\<rparr>"

definition fxTornTemplate :: FactionTemplateEntry where
  "fxTornTemplate = fxGuardTemplate\<lparr>enemyGroupMask := 1, friendGroupMask := 1\<rparr>"

definition fxForcedPlayer :: Unit where
  "fxForcedPlayer = fxPlayer\<lparr>GetReputationMgr := fxForcedReputation\<rparr>"

definition fxContestedPlayer :: Unit where
  "fxContestedPlayer =
     fxPlayer\<lparr>PLAYER_FLAGS := {PLAYER_FLAGS_CONTESTED_PVP}, GetReputationMgr := fxForcedReputation\<rparr>"

definition fxContestedOnly :: Unit where
  "fxContestedOnly = fxPlayer\<lparr>PLAYER_FLAGS := {PLAYER_FLAGS_CONTESTED_PVP}\<rparr>"

definition fxAtWarPlayer :: Unit where
  "fxAtWarPlayer = fxPlayer\<lparr>GetReputationMgr := fxReputation\<lparr>IsAtWar := (\<lambda>e. True)\<rparr>\<rparr>"

definition fxRaider :: Unit where
  "fxRaider = fxCreature\<lparr>GetObjectGuid := 3, GetFaction := 30\<rparr>"

definition fxAlly :: Unit where
  "fxAlly = fxCreature\<lparr>GetObjectGuid := 5\<rparr>"

definition fxPersuaded :: Unit where
  "fxPersuaded = fxCreature\<lparr>GetObjectGuid := 8, UNIT_FIELD_FLAGS := {UNIT_FLAG_PERSUADED}\<rparr>"

definition fxProxy :: DynamicObject where
  "fxProxy = \<lparr>GetCaster = Some fxCreature\<rparr>"

definition fxDuelist1 :: Unit where
  "fxDuelist1 = fxPlayer\<lparr>PLAYER_DUEL_TEAM := 1, PLAYER_DUEL_ARBITER := 9\<rparr>"

definition fxDuelist2 :: Unit where
  "fxDuelist2 = fxPlayer\<lparr>GetObjectGuid := 4, PLAYER_DUEL_TEAM := 2, PLAYER_DUEL_ARBITER := 9\<rparr>"

definition fxDuelist3 :: Unit where
  "fxDuelist3 = fxPlayer\<lparr>GetObjectGuid := 6, PLAYER_DUEL_TEAM := 1, PLAYER_DUEL_ARBITER := 9\<rparr>"

definition fxShieldedDuelist :: Unit where
  "fxShieldedDuelist =
     fxDuelist2\<lparr>UNIT_FIELD_FLAGS := {UNIT_FLAG_PLAYER_CONTROLLED, UNIT_FLAG_UNINTERACTIBLE}\<rparr>"

definition fxGameMaster :: Unit where
  "fxGameMaster = fxPlayer\<lparr>GetObjectGuid := 7, IsGameMaster := True\<rparr>"

definition fxUnknownModes :: World where
  "fxUnknownModes =
     fxWorld\<lparr>CONFIG_UINT32_FOGOFWAR_STEALTH := 7, CONFIG_UINT32_FOGOFWAR_HEALTH := 7,
       CONFIG_UINT32_FOGOFWAR_STATS := 7\<rparr>"

section \<open>Predicates of the properties\<close>

text \<open>The enemy and friend conditions of the faction template reaction, with the array
  tests as membership; the guards on the first slot and on the faction id are the code's.\<close>

definition enemyCondition :: "FactionTemplateEntry \<Rightarrow> FactionTemplateEntry \<Rightarrow> bool" where
  "enemyCondition a b =
     (factionGroupMask b AND enemyGroupMask a \<noteq> 0
      \<or> (slot0 (enemyFaction a) \<noteq> 0 \<and> faction b \<noteq> 0 \<and> faction b \<in> set (enemyFaction a)))"

definition friendCondition :: "FactionTemplateEntry \<Rightarrow> FactionTemplateEntry \<Rightarrow> bool" where
  "friendCondition a b =
     (factionGroupMask b AND friendGroupMask a \<noteq> 0
      \<or> (slot0 (friendFaction a) \<noteq> 0 \<and> faction b \<noteq> 0 \<and> faction b \<in> set (friendFaction a))
      \<or> factionGroupMask a AND friendGroupMask b \<noteq> 0
      \<or> (slot0 (friendFaction b) \<noteq> 0 \<and> faction a \<noteq> 0 \<and> faction a \<in> set (friendFaction b)))"

text \<open>An earlier check of \<^verbatim>\<open>Unit::CanAttack\<close> blocks the attack: the ghost rule, the flags
  of the target, or the immunity cross-check (lines 358-386 return false).\<close>

definition CanAttack_blocked :: "Unit \<Rightarrow> Unit \<Rightarrow> bool" where
  "CanAttack_blocked this u =
     ((GetTypeId this = TYPEID_UNIT \<and> GetTypeId u = TYPEID_PLAYER
         \<and> HasFlag (PLAYER_FLAGS u) {PLAYER_FLAGS_GHOST}
         \<and> \<not> HasFlag (CreatureTypeFlags this) {VISIBLE_TO_GHOSTS})
      \<or> HasFlag (UNIT_FIELD_FLAGS u) notAttackableMask
      \<or> HasFlag (UNIT_FIELD_FLAGS u)
           {if IsPlayerControlled this then UNIT_FLAG_IMMUNE_TO_PLAYER else UNIT_FLAG_IMMUNE_TO_NPC}
      \<or> HasFlag (UNIT_FIELD_FLAGS this)
           {if IsPlayerControlled u then UNIT_FLAG_IMMUNE_TO_PLAYER else UNIT_FLAG_IMMUNE_TO_NPC})"

text \<open>A player enrolled in a duel: a player object that carries the player-controlled
  flag, has no master (so it is its own controlling player) and has a duel team.\<close>

definition duelingPlayer :: "Unit \<Rightarrow> bool" where
  "duelingPlayer p =
     (GetTypeId p = TYPEID_PLAYER \<and> IsPlayerControlled p \<and> GetMasterGuid p = 0
      \<and> PLAYER_DUEL_TEAM p \<noteq> 0)"

text \<open>The opposite unit is persuaded: it carries the flag or is the caller's persuasion
  target.\<close>

definition persuadedBy :: "Unit \<Rightarrow> Unit \<Rightarrow> bool" where
  "persuadedBy this u =
     (HasFlag (UNIT_FIELD_FLAGS u) {UNIT_FLAG_PERSUADED} \<or> GetPersuadedGuid this = GetObjectGuid u)"

text \<open>The faction of a unit tracks reputation.\<close>

definition factionTracksReputation :: "World \<Rightarrow> Unit \<Rightarrow> bool" where
  "factionTracksReputation w u =
     (case GetFactionTemplateEntry w u of
        None \<Rightarrow> False
      | Some t \<Rightarrow> (case sFactionStore w (faction t) of None \<Rightarrow> False | Some e \<Rightarrow> HasReputation e))"

text \<open>The faction entry of a template, when the store has it and it tracks reputation
  (the test of lines 174-175).\<close>

definition trackedFactionEntry :: "World \<Rightarrow> FactionTemplateEntry \<Rightarrow> FactionEntry option" where
  "trackedFactionEntry w t =
     (case sFactionStore w (faction t) of
        None \<Rightarrow> None
      | Some e \<Rightarrow> if HasReputation e then Some e else None)"

section \<open>Properties\<close>

lemmas fx_defs = fxGuardTemplate_def fxPlayerTemplate_def fxRaiderTemplate_def fxReputation_def
  fxForcedReputation_def fxCreature_def fxPlayer_def fxWorld_def

lemmas rank_order_defs = less_eq_ReputationRank_def less_ReputationRank_def

lemmas reaction_defs = samePtr_def HasFlag_def GetFactionTemplateEntry_def GetControllingPlayer_def
  Unit_IsInGroup_def Player_IsInGroup_def SameSubGroup_def GetFactionReaction_PlayerChecks_def
  GetFactionReaction_Unit_def GetFactionReaction_def slot0_def
  GetReactionTo_BothControlled_def GetReactionTo_Reputation_def GetReactionTo_PlayerControlled_def
  GetReactionTo_Persuasion_def Unit_GetReactionTo_def ReputationRank_of_int_def
  Unit_IsEnemy_def Unit_IsFriend_def

lemmas attack_defs = duelMatch_def notAttackableMask_def CanAttack_Controlled_def Unit_CanAttack_def
  IsPlayerControlled_def

lemmas spell_defs = Unit_CanAttackServerside_def reputationFactionOf_def Unit_CanAttackInCombat_def
  Unit_CanAttackSpell_def Unit_CanAssistSpell_def Unit_CanAssist_def GetMaster_def isPvPUI_def
  HasAttribute_def

subsection \<open>The rank ordering\<close>

lemma rankValue_inj: "rankValue r = rankValue s \<Longrightarrow> r = s"
  by (cases r; cases s; simp)

lemma ReputationRank_of_int_rankValue: "ReputationRank_of_int (rankValue r) = r"
  by (cases r) (simp_all add: ReputationRank_of_int_def)

lemma mostFriendlyRank_greatest: "r \<le> mostFriendlyRank"
  by (cases r) (simp_all add: mostFriendlyRank_def less_eq_ReputationRank_def)

lemma loopFinds_iff: "loopFinds arr f \<longleftrightarrow> f \<in> set arr"
  by (induction arr) auto

subsection \<open>Reaction to self\<close>

text \<open>
  Claim C1, as amended. For every world and every unit, the reaction of the unit to
  itself is \<^verbatim>\<open>REP_FRIENDLY\<close>: the first test of \<^verbatim>\<open>Unit::GetReactionTo\<close> returns it before
  anything else is read. This rank is above Neutral, but it is not the greatest rank of
  the ordering, which is \<^verbatim>\<open>REP_EXALTED\<close>.
\<close>

theorem GetReactionTo_self_is_Friendly: "Unit_GetReactionTo w e e = REP_FRIENDLY"
  by (simp add: Unit_GetReactionTo_def samePtr_def)

theorem GetReactionTo_self_is_Friendly_witness:
  "Unit_GetReactionTo fxWorld fxDuelist1 fxDuelist1 = REP_FRIENDLY"
  using GetReactionTo_self_is_Friendly [of fxWorld fxDuelist1] by simp

text \<open>The claim as stated fails: the reaction of the fixture player to itself is not the
  most-friendly rank of the ordering.\<close>

theorem GetReactionTo_self_not_mostFriendlyRank:
  "Unit_GetReactionTo fxWorld fxPlayer fxPlayer \<noteq> mostFriendlyRank"
  by (simp add: Unit_GetReactionTo_def samePtr_def mostFriendlyRank_def)

subsection \<open>Faction template to unit: forced rank and contested PvP\<close>

text \<open>
  Claim C2, as amended. In the faction template to unit reaction, for a player-controlled
  unit that has a faction template of its own and a controlling player, the checks run
  in this order. First the contested-PvP test: when the player is flagged contested PvP
  and the template is a contested guard faction the result is Hostile, whether or not a
  forced rank exists. Otherwise a forced rank of that player for the template is the
  result, whatever the reputation-derived rank and the template fallback would be.
  Otherwise the player's reputation rank, when the faction of the template tracks
  reputation; otherwise the template to template reaction.
\<close>

theorem GetFactionReaction_Unit_player_checks_order:
  assumes "HasFlag (UNIT_FIELD_FLAGS u) {UNIT_FLAG_PLAYER_CONTROLLED}"
    and "GetControllingPlayer w u False = Some p"
    and "GetFactionTemplateEntry w u = Some ut"
  shows "GetFactionReaction_Unit w (Some t) u =
           (if HasFlag (PLAYER_FLAGS p) {PLAYER_FLAGS_CONTESTED_PVP} \<and> IsContestedGuardFaction t
            then REP_HOSTILE
            else
              (case GetForcedRankIfAny (GetReputationMgr p) t of
                 Some r \<Rightarrow> r
               | None \<Rightarrow>
                   (case trackedFactionEntry w t of
                      Some e \<Rightarrow> GetRank (GetReputationMgr p) e
                    | None \<Rightarrow> GetFactionReaction t ut)))"
  using assms
  by (simp add: GetFactionReaction_Unit_def GetFactionReaction_PlayerChecks_def
      trackedFactionEntry_def split: option.splits)

theorem GetFactionReaction_Unit_player_checks_order_witness:
  "HasFlag (UNIT_FIELD_FLAGS fxContestedOnly) {UNIT_FLAG_PLAYER_CONTROLLED}
   \<and> GetControllingPlayer fxWorld fxContestedOnly False = Some fxContestedOnly
   \<and> GetFactionTemplateEntry fxWorld fxContestedOnly = Some fxPlayerTemplate
   \<and> HasFlag (PLAYER_FLAGS fxContestedOnly) {PLAYER_FLAGS_CONTESTED_PVP}
   \<and> IsContestedGuardFaction fxGuardTemplate
   \<and> GetForcedRankIfAny (GetReputationMgr fxContestedOnly) fxGuardTemplate = None
   \<and> GetFactionReaction_Unit fxWorld (Some fxGuardTemplate) fxContestedOnly = REP_HOSTILE
   \<and> HasFlag (UNIT_FIELD_FLAGS fxForcedPlayer) {UNIT_FLAG_PLAYER_CONTROLLED}
   \<and> GetControllingPlayer fxWorld fxForcedPlayer False = Some fxForcedPlayer
   \<and> GetFactionTemplateEntry fxWorld fxForcedPlayer = Some fxPlayerTemplate
   \<and> \<not> HasFlag (PLAYER_FLAGS fxForcedPlayer) {PLAYER_FLAGS_CONTESTED_PVP}
   \<and> GetForcedRankIfAny (GetReputationMgr fxForcedPlayer) fxGuardTemplate = Some REP_HONORED
   \<and> GetRank (GetReputationMgr fxForcedPlayer) \<lparr>factionID = 100, HasReputation = True\<rparr> = REP_NEUTRAL
   \<and> GetFactionReaction_Unit fxWorld (Some fxGuardTemplate) fxForcedPlayer = REP_HONORED
   \<and> HasFlag (UNIT_FIELD_FLAGS fxPlayer) {UNIT_FLAG_PLAYER_CONTROLLED}
   \<and> GetControllingPlayer fxWorld fxPlayer False = Some fxPlayer
   \<and> GetFactionTemplateEntry fxWorld fxPlayer = Some fxPlayerTemplate
   \<and> GetForcedRankIfAny (GetReputationMgr fxPlayer) fxGuardTemplate = None
   \<and> trackedFactionEntry fxWorld fxGuardTemplate = Some \<lparr>factionID = 100, HasReputation = True\<rparr>
   \<and> GetFactionReaction_Unit fxWorld (Some fxGuardTemplate) fxPlayer = REP_NEUTRAL"
proof -
  have pc: "HasFlag (UNIT_FIELD_FLAGS fxContestedOnly) {UNIT_FLAG_PLAYER_CONTROLLED}"
    "HasFlag (UNIT_FIELD_FLAGS fxForcedPlayer) {UNIT_FLAG_PLAYER_CONTROLLED}"
    "HasFlag (UNIT_FIELD_FLAGS fxPlayer) {UNIT_FLAG_PLAYER_CONTROLLED}"
    by (simp_all add: fxContestedOnly_def fxForcedPlayer_def fxPlayer_def HasFlag_def)
  have cp: "GetControllingPlayer fxWorld fxContestedOnly False = Some fxContestedOnly"
    "GetControllingPlayer fxWorld fxForcedPlayer False = Some fxForcedPlayer"
    "GetControllingPlayer fxWorld fxPlayer False = Some fxPlayer"
    by (simp_all add: fxContestedOnly_def fxForcedPlayer_def fxPlayer_def GetControllingPlayer_def)
  have ft: "GetFactionTemplateEntry fxWorld fxContestedOnly = Some fxPlayerTemplate"
    "GetFactionTemplateEntry fxWorld fxForcedPlayer = Some fxPlayerTemplate"
    "GetFactionTemplateEntry fxWorld fxPlayer = Some fxPlayerTemplate"
    by (simp_all add: fxContestedOnly_def fxForcedPlayer_def fxPlayer_def fxWorld_def
        GetFactionTemplateEntry_def)
  have co: "HasFlag (PLAYER_FLAGS fxContestedOnly) {PLAYER_FLAGS_CONTESTED_PVP}"
    "\<not> HasFlag (PLAYER_FLAGS fxForcedPlayer) {PLAYER_FLAGS_CONTESTED_PVP}"
    "\<not> HasFlag (PLAYER_FLAGS fxPlayer) {PLAYER_FLAGS_CONTESTED_PVP}"
    "IsContestedGuardFaction fxGuardTemplate"
    by (simp_all add: fxContestedOnly_def fxForcedPlayer_def fxPlayer_def fxGuardTemplate_def
        HasFlag_def)
  have fr: "GetForcedRankIfAny (GetReputationMgr fxContestedOnly) fxGuardTemplate = None"
    "GetForcedRankIfAny (GetReputationMgr fxForcedPlayer) fxGuardTemplate = Some REP_HONORED"
    "GetForcedRankIfAny (GetReputationMgr fxPlayer) fxGuardTemplate = None"
    by (simp_all add: fxContestedOnly_def fxForcedPlayer_def fxPlayer_def fxReputation_def
        fxForcedReputation_def fxGuardTemplate_def)
  have rk: "GetRank (GetReputationMgr fxForcedPlayer) \<lparr>factionID = 100, HasReputation = True\<rparr> = REP_NEUTRAL"
    "GetRank (GetReputationMgr fxPlayer) \<lparr>factionID = 100, HasReputation = True\<rparr> = REP_NEUTRAL"
    by (simp_all add: fxForcedPlayer_def fxPlayer_def fxReputation_def fxForcedReputation_def)
  have te: "trackedFactionEntry fxWorld fxGuardTemplate = Some \<lparr>factionID = 100, HasReputation = True\<rparr>"
    by (simp add: trackedFactionEntry_def fxWorld_def fxGuardTemplate_def)
  show ?thesis
    using GetFactionReaction_Unit_player_checks_order [OF pc(1) cp(1) ft(1), of fxGuardTemplate]
      GetFactionReaction_Unit_player_checks_order [OF pc(2) cp(2) ft(2), of fxGuardTemplate]
      GetFactionReaction_Unit_player_checks_order [OF pc(3) cp(3) ft(3), of fxGuardTemplate]
      pc cp ft co fr rk te
    by simp
qed

text \<open>The claim as stated fails: a contested player with a forced rank of Honored towards
  the guard faction gets Hostile from the guards' template.\<close>

theorem GetFactionReaction_Unit_contested_beats_forced:
  "HasFlag (UNIT_FIELD_FLAGS fxContestedPlayer) {UNIT_FLAG_PLAYER_CONTROLLED}
   \<and> GetControllingPlayer fxWorld fxContestedPlayer False = Some fxContestedPlayer
   \<and> GetForcedRankIfAny (GetReputationMgr fxContestedPlayer) fxGuardTemplate = Some REP_HONORED
   \<and> GetFactionReaction_Unit fxWorld (Some fxGuardTemplate) fxContestedPlayer = REP_HOSTILE"
  by (simp add: fxContestedPlayer_def fx_defs reaction_defs)

subsection \<open>Faction template to faction template: enmity before friendship\<close>

text \<open>
  Claim C3, as amended. For every pair of faction templates a and b the reaction is
  Hostile whenever an enemy condition holds, even if friend conditions hold too; friend
  conditions decide only when no enemy condition holds, and the result is Neutral when
  neither holds. An explicit list counts only under the code's guard: the first slot of
  the list and the faction id looked for are both non-zero.
\<close>

theorem GetFactionReaction_enemy_first:
  "GetFactionReaction a b =
     (if enemyCondition a b then REP_HOSTILE
      else if friendCondition a b then REP_FRIENDLY
      else REP_NEUTRAL)"
  unfolding GetFactionReaction_def enemyCondition_def friendCondition_def loopFinds_iff
  by simp

theorem GetFactionReaction_enemy_first_witness:
  "enemyCondition fxTornTemplate fxPlayerTemplate
   \<and> friendCondition fxTornTemplate fxPlayerTemplate
   \<and> GetFactionReaction fxTornTemplate fxPlayerTemplate = REP_HOSTILE"
  using GetFactionReaction_enemy_first [of fxTornTemplate fxPlayerTemplate]
  by (simp add: enemyCondition_def friendCondition_def fxTornTemplate_def fx_defs)

text \<open>The claim as stated fails: a faction id that stands in the explicit enemy list
  behind an empty first slot does not make the reaction Hostile.\<close>

theorem GetFactionReaction_sparse_enemy_list:
  "faction fxPlayerTemplate \<in> set (enemyFaction fxSparseEnemies)
   \<and> GetFactionReaction fxSparseEnemies fxPlayerTemplate \<noteq> REP_HOSTILE"
  by (simp add: fxSparseEnemies_def fx_defs GetFactionReaction_def slot0_def)

subsection \<open>Enemy and friend presets\<close>

text \<open>
  Claim C4. For every pair of units a and b, \<^verbatim>\<open>IsEnemy\<close> holds exactly when the reaction of
  a to b is strictly below Unfriendly, and \<^verbatim>\<open>IsFriend\<close> holds exactly when it is strictly
  above Neutral; a pair whose reaction is Neutral or Unfriendly is neither, and such a
  pair exists.
\<close>

theorem IsEnemy_IsFriend_thresholds:
  "Unit_IsEnemy w a b = (Unit_GetReactionTo w a b < REP_UNFRIENDLY)
   \<and> Unit_IsFriend w a b = (Unit_GetReactionTo w a b > REP_NEUTRAL)
   \<and> (Unit_GetReactionTo w a b = REP_NEUTRAL \<or> Unit_GetReactionTo w a b = REP_UNFRIENDLY
        \<longrightarrow> \<not> Unit_IsEnemy w a b \<and> \<not> Unit_IsFriend w a b)
   \<and> (\<exists>w' a' b'. \<not> Unit_IsEnemy w' a' b' \<and> \<not> Unit_IsFriend w' a' b')"
proof -
  have "Unit_GetReactionTo fxWorld fxCreature fxPlayer = REP_NEUTRAL"
    by (simp add: reaction_defs fx_defs rank_order_defs)
  then have "\<not> Unit_IsEnemy fxWorld fxCreature fxPlayer \<and> \<not> Unit_IsFriend fxWorld fxCreature fxPlayer"
    by (simp add: Unit_IsEnemy_def Unit_IsFriend_def rank_order_defs)
  then have ex: "\<exists>w' a' b'. \<not> Unit_IsEnemy w' a' b' \<and> \<not> Unit_IsFriend w' a' b'"
    by blast
  show ?thesis
    using ex by (auto simp: Unit_IsEnemy_def Unit_IsFriend_def rank_order_defs)
qed

theorem IsEnemy_IsFriend_thresholds_witness:
  "Unit_GetReactionTo fxWorld fxCreature fxPlayer = REP_NEUTRAL
   \<and> \<not> Unit_IsEnemy fxWorld fxCreature fxPlayer
   \<and> \<not> Unit_IsFriend fxWorld fxCreature fxPlayer"
proof -
  have "Unit_GetReactionTo fxWorld fxCreature fxPlayer = REP_NEUTRAL"
    by (simp add: reaction_defs fx_defs rank_order_defs)
  then show ?thesis
    using IsEnemy_IsFriend_thresholds [of fxWorld fxCreature fxPlayer]
    by (simp add: rank_order_defs)
qed

subsection \<open>Owner-delegating objects\<close>

text \<open>With a live owner or caster, the reaction, the presets and the harmful spell test of
  a dynamic object, and all five queries of a game object, are the owner's.\<close>

lemma DynamicObject_delegates:
  assumes "GetCaster d = Some c"
  shows "DynamicObject_GetReactionTo w d u = Unit_GetReactionTo w c u"
    and "DynamicObject_IsEnemy w d u = Unit_IsEnemy w c u"
    and "DynamicObject_IsFriend w d u = Unit_IsFriend w c u"
    and "DynamicObject_CanAttackSpell w d u sp aoe = Unit_CanAttackSpell w c u sp aoe"
  using assms
  by (simp_all add: DynamicObject_GetReactionTo_def DynamicObject_IsEnemy_def
      DynamicObject_IsFriend_def DynamicObject_CanAttackSpell_def)

lemma GameObject_delegates:
  assumes "GetOwner g = Some c"
  shows "GameObject_GetReactionTo w g u = Unit_GetReactionTo w c u"
    and "GameObject_IsEnemy w g u = Unit_IsEnemy w c u"
    and "GameObject_IsFriend w g u = Unit_IsFriend w c u"
    and "GameObject_CanAttackSpell w g u sp aoe = Unit_CanAttackSpell w c u sp aoe"
    and "GameObject_CanAssistSpell w g u sp = Unit_CanAssistSpell w c u sp"
  using assms
  by (simp_all add: GameObject_GetReactionTo_def GameObject_IsEnemy_def
      GameObject_IsFriend_def GameObject_CanAttackSpell_def GameObject_CanAssistSpell_def)

text \<open>
  Claim C5. A dynamic object with a live caster should answer every relation and
  targeting query as the caster does. \<^verbatim>\<open>DynamicObject::CanAssistSpell\<close> does not: it asks
  the caster's \<^verbatim>\<open>CanAttackSpell\<close>. For a creature and an ally of its own faction the caster
  can assist the ally with a spell, and the caster's dynamic object cannot.
\<close>

theorem DynamicObject_CanAssistSpell_asks_CanAttackSpell:
  "GetCaster fxProxy = Some fxCreature
   \<and> Unit_CanAssistSpell fxWorld fxCreature fxAlly None
   \<and> \<not> DynamicObject_CanAssistSpell fxWorld fxProxy fxAlly None"
  by (simp add: fxProxy_def fxAlly_def DynamicObject_CanAssistSpell_def fx_defs reaction_defs
      attack_defs spell_defs rank_order_defs)

theorem DynamicObject_CanAssistSpell_differs_from_caster:
  "DynamicObject_CanAssistSpell fxWorld fxProxy fxAlly None
     \<noteq> Unit_CanAssistSpell fxWorld fxCreature fxAlly None"
  using DynamicObject_CanAssistSpell_asks_CanAttackSpell by simp

subsection \<open>The shapes of CanAttack\<close>

text \<open>
  Claim C6, as amended. For every pair of units where neither is player controlled and
  no earlier ghost, flag or immunity check blocks, \<^verbatim>\<open>CanAttack(a, b)\<close> is \<^verbatim>\<open>IsEnemy(a, b)\<close> or
  \<^verbatim>\<open>IsEnemy(b, a)\<close>. For every mixed pair, where exactly one side is player controlled and
  no earlier check blocks, \<^verbatim>\<open>CanAttack(a, b)\<close> is the single test not \<^verbatim>\<open>IsFriend(a, b)\<close>: the
  caller's own view of the target, which the reverse query need not share.
\<close>

theorem CanAttack_relation_shapes:
  "(\<not> IsPlayerControlled a \<and> \<not> IsPlayerControlled b \<and> \<not> CanAttack_blocked a b
      \<longrightarrow> Unit_CanAttack w a b = (Unit_IsEnemy w a b \<or> Unit_IsEnemy w b a))
   \<and> (IsPlayerControlled a \<noteq> IsPlayerControlled b \<and> \<not> CanAttack_blocked a b
      \<longrightarrow> Unit_CanAttack w a b = (\<not> Unit_IsFriend w a b))"
  by (auto simp: Unit_CanAttack_def CanAttack_Controlled_def CanAttack_blocked_def
      IsPlayerControlled_def Let_def)

theorem CanAttack_relation_shapes_witness:
  "\<not> IsPlayerControlled fxCreature \<and> \<not> IsPlayerControlled fxRaider
   \<and> \<not> CanAttack_blocked fxCreature fxRaider
   \<and> \<not> Unit_IsEnemy fxWorld fxCreature fxRaider \<and> Unit_IsEnemy fxWorld fxRaider fxCreature
   \<and> Unit_CanAttack fxWorld fxCreature fxRaider
   \<and> IsPlayerControlled fxPlayer \<noteq> IsPlayerControlled fxCreature
   \<and> \<not> CanAttack_blocked fxPlayer fxCreature
   \<and> Unit_IsFriend fxWorld fxPlayer fxCreature
   \<and> \<not> Unit_CanAttack fxWorld fxPlayer fxCreature"
proof -
  have pc: "\<not> IsPlayerControlled fxCreature" "\<not> IsPlayerControlled fxRaider"
    "IsPlayerControlled fxPlayer"
    by (simp_all add: IsPlayerControlled_def HasFlag_def fxRaider_def fx_defs)
  have nb: "\<not> CanAttack_blocked fxCreature fxRaider" "\<not> CanAttack_blocked fxPlayer fxCreature"
    by (simp_all add: CanAttack_blocked_def IsPlayerControlled_def HasFlag_def
        notAttackableMask_def fxRaider_def fx_defs)
  have e1: "\<not> Unit_IsEnemy fxWorld fxCreature fxRaider"
    by (simp add: fxRaider_def fx_defs reaction_defs rank_order_defs)
  have e2: "Unit_IsEnemy fxWorld fxRaider fxCreature"
    by (simp add: fxRaider_def fx_defs reaction_defs rank_order_defs)
  have f: "Unit_IsFriend fxWorld fxPlayer fxCreature"
    by (simp add: fx_defs reaction_defs rank_order_defs)
  show ?thesis
    using CanAttack_relation_shapes [of fxCreature fxRaider fxWorld] CanAttack_relation_shapes [of fxPlayer fxCreature fxWorld]
      pc nb e1 e2 f
    by simp
qed

text \<open>The claim as stated fails: for the fixture player and the guard creature no check
  blocks in either direction, the player cannot attack the creature (it is not at war
  with the guards, so it sees them as Friendly) and the creature can attack the player
  (whose standing with the guards is Neutral).\<close>

theorem CanAttack_mixed_pair_not_symmetric:
  "IsPlayerControlled fxPlayer \<and> \<not> IsPlayerControlled fxCreature
   \<and> \<not> CanAttack_blocked fxPlayer fxCreature \<and> \<not> CanAttack_blocked fxCreature fxPlayer
   \<and> \<not> Unit_CanAttack fxWorld fxPlayer fxCreature \<and> Unit_CanAttack fxWorld fxCreature fxPlayer"
  by (simp add: CanAttack_blocked_def fx_defs reaction_defs attack_defs rank_order_defs)

subsection \<open>Duels\<close>

lemma duel_players:
  assumes "duelingPlayer a" "duelingPlayer b" "GetObjectGuid a \<noteq> GetObjectGuid b"
    "PLAYER_DUEL_ARBITER a = PLAYER_DUEL_ARBITER b"
  shows "GetReactionTo_PlayerControlled w a b =
           Some (if PLAYER_DUEL_TEAM a \<noteq> PLAYER_DUEL_TEAM b then REP_HOSTILE else REP_FRIENDLY)"
  using assms
  by (simp add: duelingPlayer_def IsPlayerControlled_def GetReactionTo_PlayerControlled_def
      GetReactionTo_BothControlled_def GetControllingPlayer_def samePtr_def)

text \<open>
  Claim C7, as amended. For every two distinct players enrolled in a duel with the same
  arbiter, each player controlled, its own controlling player and with a non-zero duel
  team: if their duel teams differ, the reaction is Hostile and \<^verbatim>\<open>CanAttack\<close> is true
  exactly when no earlier ghost, flag or immunity check blocks; if their duel teams are
  equal, the reaction is Friendly and \<^verbatim>\<open>CanAttack\<close> is false.
\<close>

theorem duel_reaction_and_attack:
  assumes "duelingPlayer a" "duelingPlayer b" "GetObjectGuid a \<noteq> GetObjectGuid b"
    "PLAYER_DUEL_ARBITER a = PLAYER_DUEL_ARBITER b"
  shows "(PLAYER_DUEL_TEAM a \<noteq> PLAYER_DUEL_TEAM b \<longrightarrow>
            Unit_GetReactionTo w a b = REP_HOSTILE
            \<and> Unit_CanAttack w a b = (\<not> CanAttack_blocked a b))
       \<and> (PLAYER_DUEL_TEAM a = PLAYER_DUEL_TEAM b \<longrightarrow>
            Unit_GetReactionTo w a b = REP_FRIENDLY \<and> \<not> Unit_CanAttack w a b)"
proof -
  have r: "Unit_GetReactionTo w a b =
             (if PLAYER_DUEL_TEAM a \<noteq> PLAYER_DUEL_TEAM b then REP_HOSTILE else REP_FRIENDLY)"
    using duel_players [OF assms, of w] assms(3)
    by (simp add: Unit_GetReactionTo_def samePtr_def)
  have pc: "HasFlag (UNIT_FIELD_FLAGS a) {UNIT_FLAG_PLAYER_CONTROLLED}"
    "HasFlag (UNIT_FIELD_FLAGS b) {UNIT_FLAG_PLAYER_CONTROLLED}"
    using assms(1,2) by (simp_all add: duelingPlayer_def IsPlayerControlled_def)
  have cp: "GetControllingPlayer w a False = Some a" "GetControllingPlayer w b False = Some b"
    using assms(1,2) by (simp_all add: duelingPlayer_def GetControllingPlayer_def)
  have dm: "duelMatch a b"
    using assms by (simp add: duelMatch_def duelingPlayer_def)
  have ctl: "CanAttack_Controlled w a b True True = (\<not> Unit_IsFriend w a b)"
    using cp dm by (simp add: CanAttack_Controlled_def)
  have fr: "Unit_IsFriend w a b = (PLAYER_DUEL_TEAM a = PLAYER_DUEL_TEAM b)"
    using r by (simp add: Unit_IsFriend_def rank_order_defs)
  have ca: "Unit_CanAttack w a b = (\<not> CanAttack_blocked a b \<and> \<not> Unit_IsFriend w a b)"
    using pc ctl
    by (auto simp: Unit_CanAttack_def CanAttack_blocked_def IsPlayerControlled_def Let_def)
  show ?thesis
    using r fr ca by simp
qed

lemmas duelist_defs = fxDuelist1_def fxDuelist2_def fxDuelist3_def fxShieldedDuelist_def

theorem duel_reaction_and_attack_witness:
  "duelingPlayer fxDuelist1 \<and> duelingPlayer fxDuelist2 \<and> duelingPlayer fxDuelist3
   \<and> GetObjectGuid fxDuelist1 \<noteq> GetObjectGuid fxDuelist2
   \<and> GetObjectGuid fxDuelist1 \<noteq> GetObjectGuid fxDuelist3
   \<and> PLAYER_DUEL_ARBITER fxDuelist1 = PLAYER_DUEL_ARBITER fxDuelist2
   \<and> PLAYER_DUEL_ARBITER fxDuelist1 = PLAYER_DUEL_ARBITER fxDuelist3
   \<and> PLAYER_DUEL_TEAM fxDuelist1 \<noteq> PLAYER_DUEL_TEAM fxDuelist2
   \<and> PLAYER_DUEL_TEAM fxDuelist1 = PLAYER_DUEL_TEAM fxDuelist3
   \<and> \<not> CanAttack_blocked fxDuelist1 fxDuelist2
   \<and> Unit_GetReactionTo fxWorld fxDuelist1 fxDuelist2 = REP_HOSTILE
   \<and> Unit_CanAttack fxWorld fxDuelist1 fxDuelist2
   \<and> Unit_GetReactionTo fxWorld fxDuelist1 fxDuelist3 = REP_FRIENDLY
   \<and> \<not> Unit_CanAttack fxWorld fxDuelist1 fxDuelist3"
proof -
  have d: "duelingPlayer fxDuelist1" "duelingPlayer fxDuelist2" "duelingPlayer fxDuelist3"
    by (simp_all add: duelingPlayer_def IsPlayerControlled_def HasFlag_def duelist_defs fx_defs)
  have g: "GetObjectGuid fxDuelist1 \<noteq> GetObjectGuid fxDuelist2"
    "GetObjectGuid fxDuelist1 \<noteq> GetObjectGuid fxDuelist3"
    by (simp_all add: duelist_defs fx_defs)
  have ar: "PLAYER_DUEL_ARBITER fxDuelist1 = PLAYER_DUEL_ARBITER fxDuelist2"
    "PLAYER_DUEL_ARBITER fxDuelist1 = PLAYER_DUEL_ARBITER fxDuelist3"
    by (simp_all add: duelist_defs fx_defs)
  have tm: "PLAYER_DUEL_TEAM fxDuelist1 \<noteq> PLAYER_DUEL_TEAM fxDuelist2"
    "PLAYER_DUEL_TEAM fxDuelist1 = PLAYER_DUEL_TEAM fxDuelist3"
    by (simp_all add: duelist_defs fx_defs)
  have nb: "\<not> CanAttack_blocked fxDuelist1 fxDuelist2"
    by (simp add: CanAttack_blocked_def IsPlayerControlled_def HasFlag_def notAttackableMask_def
        duelist_defs fx_defs)
  show ?thesis
    using duel_reaction_and_attack [OF d(1) d(2) g(1) ar(1), of fxWorld] duel_reaction_and_attack [OF d(1) d(3) g(2) ar(2), of fxWorld]
      d g ar tm nb
    by simp
qed

text \<open>The claim as stated fails: an opponent of the other duel team that carries the
  uninteractible flag cannot be attacked.\<close>

theorem duel_attack_blocked_by_flag:
  "duelingPlayer fxDuelist1 \<and> duelingPlayer fxShieldedDuelist
   \<and> GetObjectGuid fxDuelist1 \<noteq> GetObjectGuid fxShieldedDuelist
   \<and> PLAYER_DUEL_ARBITER fxDuelist1 = PLAYER_DUEL_ARBITER fxShieldedDuelist
   \<and> PLAYER_DUEL_TEAM fxDuelist1 \<noteq> PLAYER_DUEL_TEAM fxShieldedDuelist
   \<and> \<not> Unit_CanAttack fxWorld fxDuelist1 fxShieldedDuelist"
  by (simp add: duelingPlayer_def duelist_defs fx_defs attack_defs HasFlag_def)

subsection \<open>Persuasion\<close>

text \<open>
  Claim C8, as amended. In \<^verbatim>\<open>Unit::GetReactionTo\<close>, when control reaches the default
  fallback (the two units differ and the block guarded by the caller's player-controlled
  flag has not returned): if the opposite unit is persuaded, its faction tracks
  reputation and the raw fallback reaction lies strictly between Hostile and Honored, the
  result is the raw reaction raised by exactly one step; otherwise the result is the raw
  reaction. A player-controlled caller with a controlling player reaches the fallback
  only when the opposite faction does not track reputation, so for such a caller the
  result is always the raw reaction.
\<close>

theorem GetReactionTo_persuasion_step:
  assumes "\<not> samePtr this u"
    and "GetReactionTo_PlayerControlled w this u = None"
    and "raw = GetFactionReaction_Unit w (GetFactionTemplateEntry w this) u"
  shows "(persuadedBy this u \<and> factionTracksReputation w u \<and> REP_HOSTILE < raw \<and> raw < REP_HONORED
            \<longrightarrow> rankValue (Unit_GetReactionTo w this u) = rankValue raw + 1)
       \<and> (\<not> (persuadedBy this u \<and> factionTracksReputation w u \<and> REP_HOSTILE < raw \<and> raw < REP_HONORED)
            \<longrightarrow> Unit_GetReactionTo w this u = raw)
       \<and> (IsPlayerControlled this \<and> GetControllingPlayer w this False \<noteq> None
            \<longrightarrow> \<not> factionTracksReputation w u)"
proof -
  have bump: "REP_HOSTILE < r \<Longrightarrow> r < REP_HONORED \<Longrightarrow>
      rankValue (ReputationRank_of_int (rankValue r + 1)) = rankValue r + 1" for r
    by (cases r) (simp_all add: ReputationRank_of_int_def rank_order_defs)
  have res: "Unit_GetReactionTo w this u = GetReactionTo_Persuasion w this u raw"
    using assms by (simp add: Unit_GetReactionTo_def)
  have step: "(persuadedBy this u \<and> factionTracksReputation w u \<and> REP_HOSTILE < raw \<and> raw < REP_HONORED
            \<longrightarrow> rankValue (Unit_GetReactionTo w this u) = rankValue raw + 1)
       \<and> (\<not> (persuadedBy this u \<and> factionTracksReputation w u \<and> REP_HOSTILE < raw \<and> raw < REP_HONORED)
            \<longrightarrow> Unit_GetReactionTo w this u = raw)"
    unfolding res
    by (auto simp: GetReactionTo_Persuasion_def persuadedBy_def factionTracksReputation_def bump
        split: option.splits)
  have untracked: "\<not> factionTracksReputation w u"
    if "IsPlayerControlled this" "GetControllingPlayer w this False \<noteq> None"
  proof -
    from that(2) obtain p where p: "GetControllingPlayer w this False = Some p"
      by blast
    have "GetReactionTo_Reputation w p u = None"
      using assms(2) that(1) p
      by (simp add: GetReactionTo_PlayerControlled_def IsPlayerControlled_def Let_def
          split: option.splits if_splits)
    then show ?thesis
      by (auto simp: GetReactionTo_Reputation_def factionTracksReputation_def
          split: option.splits if_splits)
  qed
  show ?thesis
    using step untracked by blast
qed

theorem GetReactionTo_persuasion_step_witness:
  "\<not> samePtr fxCreature fxPersuaded
   \<and> GetReactionTo_PlayerControlled fxWorld fxCreature fxPersuaded = None
   \<and> GetFactionReaction_Unit fxWorld (GetFactionTemplateEntry fxWorld fxCreature) fxPersuaded = REP_FRIENDLY
   \<and> persuadedBy fxCreature fxPersuaded \<and> factionTracksReputation fxWorld fxPersuaded
   \<and> REP_HOSTILE < REP_FRIENDLY \<and> REP_FRIENDLY < REP_HONORED
   \<and> rankValue (Unit_GetReactionTo fxWorld fxCreature fxPersuaded) = 5
   \<and> \<not> samePtr fxCreature fxAlly
   \<and> GetReactionTo_PlayerControlled fxWorld fxCreature fxAlly = None
   \<and> GetFactionReaction_Unit fxWorld (GetFactionTemplateEntry fxWorld fxCreature) fxAlly = REP_FRIENDLY
   \<and> \<not> persuadedBy fxCreature fxAlly
   \<and> Unit_GetReactionTo fxWorld fxCreature fxAlly = REP_FRIENDLY
   \<and> \<not> samePtr fxPlayer fxRaider
   \<and> GetReactionTo_PlayerControlled fxWorld fxPlayer fxRaider = None
   \<and> GetFactionReaction_Unit fxWorld (GetFactionTemplateEntry fxWorld fxPlayer) fxRaider = REP_NEUTRAL
   \<and> IsPlayerControlled fxPlayer \<and> GetControllingPlayer fxWorld fxPlayer False \<noteq> None
   \<and> \<not> factionTracksReputation fxWorld fxRaider
   \<and> Unit_GetReactionTo fxWorld fxPlayer fxRaider = REP_NEUTRAL"
proof -
  have a1: "\<not> samePtr fxCreature fxPersuaded" "\<not> samePtr fxCreature fxAlly"
    "\<not> samePtr fxPlayer fxRaider"
    by (simp_all add: samePtr_def fxPersuaded_def fxAlly_def fxRaider_def fx_defs)
  have a2: "GetReactionTo_PlayerControlled fxWorld fxCreature fxPersuaded = None"
    "GetReactionTo_PlayerControlled fxWorld fxCreature fxAlly = None"
    by (simp_all add: GetReactionTo_PlayerControlled_def HasFlag_def fx_defs)
  have a2': "GetReactionTo_PlayerControlled fxWorld fxPlayer fxRaider = None"
    by (simp add: fxRaider_def fx_defs reaction_defs)
  have a3: "REP_FRIENDLY = GetFactionReaction_Unit fxWorld (GetFactionTemplateEntry fxWorld fxCreature) fxPersuaded"
    "REP_FRIENDLY = GetFactionReaction_Unit fxWorld (GetFactionTemplateEntry fxWorld fxCreature) fxAlly"
    "REP_NEUTRAL = GetFactionReaction_Unit fxWorld (GetFactionTemplateEntry fxWorld fxPlayer) fxRaider"
    by (simp_all add: fxPersuaded_def fxAlly_def fxRaider_def fx_defs reaction_defs)
  have p: "persuadedBy fxCreature fxPersuaded" "\<not> persuadedBy fxCreature fxAlly"
    by (simp_all add: persuadedBy_def HasFlag_def fxPersuaded_def fxAlly_def fx_defs)
  have t: "factionTracksReputation fxWorld fxPersuaded"
    by (simp add: factionTracksReputation_def GetFactionTemplateEntry_def fxPersuaded_def fx_defs)
  have o: "REP_HOSTILE < REP_FRIENDLY" "REP_FRIENDLY < REP_HONORED"
    by (simp_all add: rank_order_defs)
  have c: "IsPlayerControlled fxPlayer" "GetControllingPlayer fxWorld fxPlayer False \<noteq> None"
    by (simp_all add: IsPlayerControlled_def HasFlag_def GetControllingPlayer_def fx_defs)
  show ?thesis
    using GetReactionTo_persuasion_step [OF a1(1) a2(1) a3(1)] GetReactionTo_persuasion_step [OF a1(2) a2(2) a3(2)]
      GetReactionTo_persuasion_step [OF a1(3) a2' a3(3)] a1 a2 a2' a3 [symmetric] p t o c
    by simp
qed

text \<open>The claim as stated fails on both sides. A player at war with the guards faces a
  persuaded guard: the raw fallback reaction is Neutral and every condition of the step
  holds, yet the result is Hostile, returned by the reputation check before the fallback.
  The fixture player faces a guard that is not persuaded: the raw fallback reaction is
  Neutral, yet the result is Friendly.\<close>

theorem GetReactionTo_persuasion_not_reached:
  "persuadedBy fxAtWarPlayer fxPersuaded \<and> factionTracksReputation fxWorld fxPersuaded
   \<and> GetFactionReaction_Unit fxWorld (GetFactionTemplateEntry fxWorld fxAtWarPlayer) fxPersuaded
        = REP_NEUTRAL
   \<and> REP_HOSTILE < REP_NEUTRAL \<and> REP_NEUTRAL < REP_HONORED
   \<and> Unit_GetReactionTo fxWorld fxAtWarPlayer fxPersuaded = REP_HOSTILE
   \<and> \<not> persuadedBy fxPlayer fxCreature
   \<and> GetFactionReaction_Unit fxWorld (GetFactionTemplateEntry fxWorld fxPlayer) fxCreature
        = REP_NEUTRAL
   \<and> Unit_GetReactionTo fxWorld fxPlayer fxCreature = REP_FRIENDLY"
  by (simp add: persuadedBy_def factionTracksReputation_def fxAtWarPlayer_def fxPersuaded_def
      fx_defs reaction_defs rank_order_defs)

subsection \<open>Fog of war\<close>

text \<open>
  Claim C9. For every unit and every game-master player viewer the three fog-of-war
  gates (stealth, health, stats) return true, whatever the configured modes. For a viewer
  that is not a game master, every configuration value other than the listed cases (1 for
  stealth; 1 and 2 for health and stats) takes the default branch: same group for
  stealth, same group ignoring charms for health, self or own summoner for stats.
\<close>

theorem FogOfWar_gamemaster_and_default:
  "(GetTypeId other = TYPEID_PLAYER \<and> IsGameMaster other \<longrightarrow>
      Unit_IsFogOfWarVisibleStealth w this other
      \<and> Unit_IsFogOfWarVisibleHealth w this other
      \<and> Unit_IsFogOfWarVisibleStats w this other)
   \<and> (\<not> (GetTypeId other = TYPEID_PLAYER \<and> IsGameMaster other) \<longrightarrow>
        (CONFIG_UINT32_FOGOFWAR_STEALTH w \<noteq> 1 \<longrightarrow>
           Unit_IsFogOfWarVisibleStealth w this other = IsInGroup w this other False False)
        \<and> (CONFIG_UINT32_FOGOFWAR_HEALTH w \<noteq> 1 \<and> CONFIG_UINT32_FOGOFWAR_HEALTH w \<noteq> 2 \<longrightarrow>
           Unit_IsFogOfWarVisibleHealth w this other = IsInGroup w this other False True)
        \<and> (CONFIG_UINT32_FOGOFWAR_STATS w \<noteq> 1 \<and> CONFIG_UINT32_FOGOFWAR_STATS w \<noteq> 2 \<longrightarrow>
           Unit_IsFogOfWarVisibleStats w this other
             = (samePtr this other \<or> GetSummonerGuid this = GetObjectGuid other)))"
  by (simp add: Unit_IsFogOfWarVisibleStealth_def Unit_IsFogOfWarVisibleHealth_def
      Unit_IsFogOfWarVisibleStats_def)

theorem FogOfWar_gamemaster_and_default_witness:
  "GetTypeId fxGameMaster = TYPEID_PLAYER \<and> IsGameMaster fxGameMaster
   \<and> Unit_IsFogOfWarVisibleStealth fxUnknownModes fxCreature fxGameMaster
   \<and> Unit_IsFogOfWarVisibleHealth fxUnknownModes fxCreature fxGameMaster
   \<and> Unit_IsFogOfWarVisibleStats fxUnknownModes fxCreature fxGameMaster
   \<and> \<not> (GetTypeId fxPlayer = TYPEID_PLAYER \<and> IsGameMaster fxPlayer)
   \<and> CONFIG_UINT32_FOGOFWAR_STEALTH fxUnknownModes \<noteq> 1
   \<and> CONFIG_UINT32_FOGOFWAR_HEALTH fxUnknownModes \<noteq> 1
   \<and> CONFIG_UINT32_FOGOFWAR_HEALTH fxUnknownModes \<noteq> 2
   \<and> CONFIG_UINT32_FOGOFWAR_STATS fxUnknownModes \<noteq> 1
   \<and> CONFIG_UINT32_FOGOFWAR_STATS fxUnknownModes \<noteq> 2
   \<and> Unit_IsFogOfWarVisibleStealth fxUnknownModes fxCreature fxPlayer
        = IsInGroup fxUnknownModes fxCreature fxPlayer False False
   \<and> Unit_IsFogOfWarVisibleHealth fxUnknownModes fxCreature fxPlayer
        = IsInGroup fxUnknownModes fxCreature fxPlayer False True
   \<and> Unit_IsFogOfWarVisibleStats fxUnknownModes fxCreature fxPlayer
        = (samePtr fxCreature fxPlayer \<or> GetSummonerGuid fxCreature = GetObjectGuid fxPlayer)
   \<and> \<not> Unit_IsFogOfWarVisibleStats fxUnknownModes fxCreature fxPlayer"
proof -
  have gm: "GetTypeId fxGameMaster = TYPEID_PLAYER" "IsGameMaster fxGameMaster"
    "\<not> (GetTypeId fxPlayer = TYPEID_PLAYER \<and> IsGameMaster fxPlayer)"
    by (simp_all add: fxGameMaster_def fx_defs)
  have cfg: "CONFIG_UINT32_FOGOFWAR_STEALTH fxUnknownModes \<noteq> 1"
    "CONFIG_UINT32_FOGOFWAR_HEALTH fxUnknownModes \<noteq> 1"
    "CONFIG_UINT32_FOGOFWAR_HEALTH fxUnknownModes \<noteq> 2"
    "CONFIG_UINT32_FOGOFWAR_STATS fxUnknownModes \<noteq> 1"
    "CONFIG_UINT32_FOGOFWAR_STATS fxUnknownModes \<noteq> 2"
    by (simp_all add: fxUnknownModes_def fx_defs)
  have st: "\<not> (samePtr fxCreature fxPlayer \<or> GetSummonerGuid fxCreature = GetObjectGuid fxPlayer)"
    by (simp add: samePtr_def fx_defs)
  show ?thesis
    using FogOfWar_gamemaster_and_default [of fxGameMaster fxUnknownModes fxCreature]
      FogOfWar_gamemaster_and_default [of fxPlayer fxUnknownModes fxCreature] gm cfg st
    by simp
qed

subsection \<open>No unit can attack itself\<close>

text \<open>
  Claim C10. For every unit u, of any kind and with any flags, \<^verbatim>\<open>CanAttack(u, u)\<close> is false:
  the reaction to self is Friendly, so the player-controlled branch stops at the friend
  test and neither direction of the enemy test holds.
\<close>

theorem CanAttack_self_never: "\<not> Unit_CanAttack w u u"
  by (simp add: Unit_CanAttack_def CanAttack_Controlled_def Unit_IsFriend_def Unit_IsEnemy_def
      Unit_GetReactionTo_def samePtr_def rank_order_defs Let_def)

theorem CanAttack_self_never_witness:
  "\<not> Unit_CanAttack fxWorld fxCreature fxCreature \<and> \<not> Unit_CanAttack fxWorld fxDuelist2 fxDuelist2"
  using CanAttack_self_never [of fxWorld fxCreature] CanAttack_self_never [of fxWorld fxDuelist2] by simp

end
